theory Spec2Isabelle
  imports Main "HOL-Library.Product_Lexorder"
begin

section \<open>Dates, times and instants\<close>

text \<open>
  The program works with Python's naive \<^verbatim>\<open>datetime\<close>, \<^verbatim>\<open>date\<close> and \<^verbatim>\<open>time\<close>
  values.  A date is represented by its proleptic Gregorian ordinal (\<^verbatim>\<open>date.toordinal()\<close>,
  1 for 0001-01-01, \<open>MAXORDINAL\<close> for 9999-12-31), a time of day by its number of
  microseconds since midnight, and a datetime by the number of microseconds since midnight
  of ordinal day 0.  Python compares datetimes field by field, which is the order of this
  number; \<^verbatim>\<open>datetime.combine\<close>, \<^verbatim>\<open>.date()\<close> and \<^verbatim>\<open>.time()\<close> are
  \<open>combine\<close>, \<open>date_of\<close> and \<open>time_of\<close>.
\<close>

type_synonym date = nat
type_synonym time = nat
type_synonym datetime = nat

definition US_PER_DAY :: nat where
  "US_PER_DAY = 86400000000"

definition MAXORDINAL :: nat where
  "MAXORDINAL = 3652059"

definition date_of :: "datetime \<Rightarrow> date" where
  "date_of x = x div US_PER_DAY"

definition time_of :: "datetime \<Rightarrow> time" where
  "time_of x = x mod US_PER_DAY"

definition combine :: "date \<Rightarrow> time \<Rightarrow> datetime" where
  "combine d t = d * US_PER_DAY + t"

text \<open>\<^verbatim>\<open>date.weekday()\<close>: 0 is Monday, 6 is Sunday.\<close>

definition weekday :: "date \<Rightarrow> nat" where
  "weekday d = (d + 6) mod 7"

text \<open>\<^verbatim>\<open>time(h, m, s)\<close> for the literals the program parses with \<^verbatim>\<open>strptime\<close>.\<close>

definition hms :: "nat \<Rightarrow> nat \<Rightarrow> nat \<Rightarrow> time" where
  "hms h m s = ((h * 60 + m) * 60 + s) * 1000000"

text \<open>
  Exceptions of the Python run time that the modelled code can raise.  \<open>OverflowError\<close>
  is what \<^verbatim>\<open>date + timedelta\<close> and \<^verbatim>\<open>datetime + timedelta\<close> raise when the result leaves
  the years 1 to 9999; \<open>ValueError\<close> is what \<^verbatim>\<open>strptime\<close> raises on text that does not
  match the format; \<open>AttributeError\<close> is \<^verbatim>\<open>None.nif\<close>; \<open>DataError\<close> is the exception of
  the database driver when PostgreSQL cannot read the text of a parameter as a value of the
  column's type (invalid input syntax); \<open>StoreError\<close> is any other exception of the
  driver, with its message.
\<close>

datatype erro = OverflowError | ValueError | AttributeError | DataError | StoreError string

text \<open>
  \<^verbatim>\<open>datetime + timedelta(microseconds=delta)\<close>: the sum is normalised to days and a time of
  day, and the result is out of range unless \<open>0 < days \<le> MAXORDINAL\<close>.
\<close>

definition add_timedelta :: "datetime \<Rightarrow> int \<Rightarrow> erro + datetime" where
  "add_timedelta x delta =
     (let r = int x + delta
      in if 0 < r div int US_PER_DAY \<and> r div int US_PER_DAY \<le> int MAXORDINAL
         then Inr (nat r) else Inl OverflowError)"

text \<open>\<^verbatim>\<open>timedelta(minutes=m)\<close>, in microseconds.\<close>

definition minutes :: "int \<Rightarrow> int" where
  "minutes m = m * 60000000"

text \<open>\<^verbatim>\<open>date + timedelta(days=1)\<close>.\<close>

definition next_day :: "date \<Rightarrow> erro + date" where
  "next_day d = (if 0 < d + 1 \<and> d + 1 \<le> MAXORDINAL then Inr (d + 1) else Inl OverflowError)"

section \<open>The slot generator\<close>

text \<open>
  \<^verbatim>\<open>gerar_horarios_disponiveis(inicio, fim, intervalo_minutos)\<close>.  The \<^verbatim>\<open>while\<close> loop has no
  bound of its own (an interval of 0 never advances), so it is a partial function: \<open>None\<close>
  is a run that never returns.  \<open>gerar_loop\<close> is the loop with the list \<^verbatim>\<open>horarios\<close> built
  so far.
\<close>

partial_function (option) gerar_loop ::
  "datetime \<Rightarrow> datetime \<Rightarrow> int \<Rightarrow> datetime list \<Rightarrow> (erro + datetime list) option" where
  "gerar_loop inicio fim intervalo_minutos horarios =
     (if inicio < fim then
        (let horarios' = (if time_of inicio \<noteq> hms 13 0 0 \<and> time_of inicio \<noteq> hms 13 30 0
                          then horarios @ [inicio] else horarios)
         in case add_timedelta inicio (minutes intervalo_minutos) of
              Inl e \<Rightarrow> Some (Inl e)
            | Inr inicio' \<Rightarrow> gerar_loop inicio' fim intervalo_minutos horarios')
      else Some (Inr horarios))"

declare gerar_loop.simps [code]

definition gerar_horarios_disponiveis ::
  "datetime \<Rightarrow> datetime \<Rightarrow> int \<Rightarrow> (erro + datetime list) option" where
  "gerar_horarios_disponiveis inicio fim intervalo_minutos =
     gerar_loop inicio fim intervalo_minutos []"

text \<open>The number of passes of the loop for a positive step \<open>s\<close> (in microseconds).\<close>

definition passos :: "datetime \<Rightarrow> datetime \<Rightarrow> nat \<Rightarrow> nat" where
  "passos inicio fim s = (fim - inicio + s - 1) div s"

definition almoco :: "datetime \<Rightarrow> bool" where
  "almoco t = (time_of t = hms 13 0 0 \<or> time_of t = hms 13 30 0)"

definition candidatos :: "datetime \<Rightarrow> datetime \<Rightarrow> nat \<Rightarrow> datetime list" where
  "candidatos inicio fim s = map (\<lambda>k. inicio + k * s) [0..<passos inicio fim s]"

definition MEIA_HORA :: nat where
  "MEIA_HORA = 1800000000"

section \<open>The database\<close>

text \<open>
  The tables the program reads and writes, as lists of rows with the columns its SQL
  names.  \<^verbatim>\<open>consulta.id\<close> is filled by the database (\<^verbatim>\<open>DEFAULT\<close>) and never read, so
  it is left out.  Dates and times of day are stored as the values the SQL types
  \<^verbatim>\<open>DATE\<close> and \<^verbatim>\<open>TIME\<close> hold.  The program sends \<^verbatim>\<open>%(data)s\<close> and \<^verbatim>\<open>%(hora)s\<close> as text, and
  it is PostgreSQL that reads the text as a date or a time when it runs the statement.
\<close>

record clinica_row =
  cl_nome :: string
  cl_morada :: string

record medico_row =
  m_nif :: string
  m_nome :: string
  m_especialidade :: string

record trabalha_row =
  t_nif :: string
  t_nome :: string
  t_dia_da_semana :: int

record paciente_row =
  p_ssn :: string
  p_nif :: string

record consulta_row =
  c_ssn :: string
  c_nif :: string
  c_nome :: string
  c_data :: date
  c_hora :: time

record db =
  tb_clinica :: "clinica_row list"
  tb_medico :: "medico_row list"
  tb_trabalha :: "trabalha_row list"
  tb_paciente :: "paciente_row list"
  tb_consulta :: "consulta_row list"

text \<open>\<^verbatim>\<open>SELECT COUNT(*) FROM ... WHERE ...\<close>.\<close>

definition count_where :: "('a \<Rightarrow> bool) \<Rightarrow> 'a list \<Rightarrow> nat" where
  "count_where p rows = length (filter p rows)"

section \<open>The availability resolver\<close>

definition inicio_horario :: time where
  "inicio_horario = hms 8 0 0"

definition fim_horario :: time where
  "fim_horario = hms 19 0 0"

definition intervalo_minutos :: int where
  "intervalo_minutos = 30"

text \<open>
  \<^verbatim>\<open>SELECT DISTINCT m.nif, m.nome FROM medico m JOIN trabalha t ON m.nif = t.nif
  JOIN clinica c ON t.nome = c.nome WHERE c.nome = clinica AND m.especialidade = especialidade\<close>.
\<close>

definition medicos_query :: "db \<Rightarrow> string \<Rightarrow> string \<Rightarrow> (string \<times> string) list" where
  "medicos_query bd clin esp =
     remdups [(m_nif m, m_nome m).
              m \<leftarrow> tb_medico bd, t \<leftarrow> tb_trabalha bd, c \<leftarrow> tb_clinica bd,
              m_nif m = t_nif t \<and> t_nome t = cl_nome c \<and> cl_nome c = clin
              \<and> m_especialidade m = esp]"

text \<open>\<^verbatim>\<open>SELECT dia_da_semana FROM trabalha WHERE nif = nif AND nome = clinica\<close>.\<close>

definition dias_da_semana :: "db \<Rightarrow> string \<Rightarrow> string \<Rightarrow> int list" where
  "dias_da_semana bd nif clin =
     map t_dia_da_semana (filter (\<lambda>t. t_nif t = nif \<and> t_nome t = clin) (tb_trabalha bd))"

text \<open>
  \<^verbatim>\<open>SELECT data, hora FROM consulta WHERE nif = nif AND (data > now::date OR
  (data = now::date AND hora > now::time)) ORDER BY data, hora\<close>.
\<close>

definition consultas_existentes :: "db \<Rightarrow> string \<Rightarrow> datetime \<Rightarrow> consulta_row list" where
  "consultas_existentes bd nif now =
     sort_key (\<lambda>c. (c_data c, c_hora c))
       (filter (\<lambda>c. c_nif c = nif \<and>
                     (c_data c > date_of now \<or> (c_data c = date_of now \<and> c_hora c > time_of now)))
          (tb_consulta bd))"

text \<open>
  The \<^verbatim>\<open>for horario in horarios_possiveis\<close> loop, with its \<^verbatim>\<open>break\<close>; the last argument
  is \<^verbatim>\<open>horarios_disponiveis\<close>.
\<close>

fun recolher ::
  "datetime \<Rightarrow> consulta_row list \<Rightarrow> datetime list \<Rightarrow> datetime list \<Rightarrow> datetime list" where
  "recolher now cs [] disp = disp"
| "recolher now cs (horario # resto) disp =
     (if length disp \<ge> 3 then disp
      else if horario > now \<and> list_all (\<lambda>c. horario \<noteq> combine (c_data c) (c_hora c)) cs
           then recolher now cs resto (disp @ [horario])
           else recolher now cs resto disp)"

text \<open>
  One pass of the body of \<^verbatim>\<open>while len(horarios_disponiveis) < 3\<close>, before the date is
  advanced: on a working weekday the slots of the day are generated and collected.
\<close>

definition passo_dia ::
  "int list \<Rightarrow> consulta_row list \<Rightarrow> datetime \<Rightarrow> date \<Rightarrow> datetime list
   \<Rightarrow> (erro + datetime list) option" where
  "passo_dia dias cs now data_atual disp =
     (if int (weekday data_atual) \<in> set dias then
        Option.bind
          (gerar_horarios_disponiveis (combine data_atual inicio_horario)
             (combine data_atual fim_horario) intervalo_minutos)
          (\<lambda>r. case r of Inl e \<Rightarrow> Some (Inl e)
                | Inr possiveis \<Rightarrow> Some (Inr (recolher now cs possiveis disp)))
      else Some (Inr disp))"

text \<open>
  The \<^verbatim>\<open>while\<close> loop itself.  Its only normal exit is the loop test;
  \<^verbatim>\<open>data_atual += timedelta(days=1)\<close> raises once the date would pass 9999-12-31.
\<close>

partial_function (option) horarios_loop ::
  "int list \<Rightarrow> consulta_row list \<Rightarrow> datetime \<Rightarrow> date \<Rightarrow> datetime list
   \<Rightarrow> (erro + datetime list) option" where
  "horarios_loop dias cs now data_atual disp =
     (if length disp < 3 then
        Option.bind (passo_dia dias cs now data_atual disp)
          (\<lambda>r. case r of Inl e \<Rightarrow> Some (Inl e)
                | Inr disp' \<Rightarrow>
                    (case next_day data_atual of Inl e \<Rightarrow> Some (Inl e)
                     | Inr amanha \<Rightarrow> horarios_loop dias cs now amanha disp'))
      else Some (Inr disp))"

declare horarios_loop.simps [code]

text \<open>The body of \<^verbatim>\<open>for medico in medicos\<close> up to the end of the scan.\<close>

definition horarios_medico ::
  "db \<Rightarrow> string \<Rightarrow> datetime \<Rightarrow> string \<Rightarrow> (erro + datetime list) option" where
  "horarios_medico bd clin now nif =
     horarios_loop (dias_da_semana bd nif clin) (consultas_existentes bd nif now) now
       (date_of now) []"

section \<open>Responses\<close>

text \<open>
  The messages of the JSON bodies, one constructor for each message text of the source
  (the texts are Portuguese and are not repeated here; the arguments are the strings the
  source concatenates into them, in the order it does).  \<open>Excecao e\<close> is \<^verbatim>\<open>str(e)\<close> of a
  caught exception.
\<close>

datatype mensagem =
    CampoPacienteVazio
  | FormatoPacienteInvalido
  | CampoMedicoVazio
  | FormatoMedicoInvalido
  | CampoDataVazio
  | FormatoDataInvalido
  | CampoHoraVazio
  | FormatoHoraInvalido
  | HorarioNoPassado string string
  | HorarioForaDoExpediente
  | ClinicaNaoExistente string
  | EspecialidadeNaoExistente string string
  | PacienteNaoExistente string
  | MedicoNaoExistente string
  | MedicoNaoTrabalha string
  | MedicoTemConsulta string string
  | PacienteTemConsulta string string
  | MedicoProprio
  | ConsultaNaoEncontrada
  | MarcouConsulta string string string string string
  | CancelouConsulta string string string string string
  | Excecao erro

record entrada =
  e_medico :: string
  e_horarios :: "(date \<times> time) list"

text \<open>
  A body is \<^verbatim>\<open>{"message": m, "status": "error"}\<close>, \<^verbatim>\<open>{"message": m, "status": "success"}\<close>,
  \<^verbatim>\<open>{"message": m}\<close> or the list of doctors with their slots; a response is a body with
  its HTTP status.
\<close>

datatype corpo = Erro mensagem | Sucesso mensagem | SoMensagem mensagem | Medicos "entrada list"

type_synonym resposta = "corpo \<times> nat"

text \<open>The weekday names, without their diacritics.\<close>

definition lista_dias_da_semana :: "string list" where
  "lista_dias_da_semana =
     [''segunda-feira'', ''terca-feira'', ''quarta-feira'', ''quinta-feira'', ''sexta-feira'',
      ''sabado'', ''domingo'']"

text \<open>
  \<^verbatim>\<open>for medico in medicos\<close>: each doctor's entry is appended to \<^verbatim>\<open>resultado\<close>; an exception
  of a scan is not caught and ends the request.
\<close>

fun por_medico ::
  "db \<Rightarrow> string \<Rightarrow> datetime \<Rightarrow> (string \<times> string) list \<Rightarrow> entrada list
   \<Rightarrow> (erro + entrada list) option" where
  "por_medico bd clin now [] resultado = Some (Inr resultado)"
| "por_medico bd clin now ((nif, nome) # resto) resultado =
     (case horarios_medico bd clin now nif of
        None \<Rightarrow> None
      | Some (Inl e) \<Rightarrow> Some (Inl e)
      | Some (Inr disp) \<Rightarrow>
          por_medico bd clin now resto
            (resultado @ [\<lparr>e_medico = nome @ '' ('' @ nif @ '')'',
                           e_horarios = map (\<lambda>h. (date_of h, time_of h)) disp\<rparr>]))"

definition lista_medicos_clinica_especialidade ::
  "db \<Rightarrow> datetime \<Rightarrow> string \<Rightarrow> string \<Rightarrow> (erro + resposta) option" where
  "lista_medicos_clinica_especialidade bd now clin esp =
     (let clinica_existe = count_where (\<lambda>c. cl_nome c = clin) (tb_clinica bd) > 0
      in if clinica_existe then
           (let medicos = medicos_query bd clin esp
            in if medicos \<noteq> [] then
                 (case por_medico bd clin now medicos [] of
                    None \<Rightarrow> None
                  | Some (Inl e) \<Rightarrow> Some (Inl e)
                  | Some (Inr resultado) \<Rightarrow> Some (Inr (Medicos resultado, 200)))
               else Some (Inr (Erro (EspecialidadeNaoExistente clin esp), 404)))
         else Some (Inr (Erro (ClinicaNaoExistente clin), 404)))"

section \<open>Parsing dates and times\<close>

text \<open>
  A string is the list of its code points, for text whose code points are all below 256
  (a \<open>char\<close> is one code point).

  \<^verbatim>\<open>datetime.strptime\<close> of the standard library, for the two formats the program uses.
  It turns the format into a regular expression, matches it at the start
  of the text (alternatives in their order, with backtracking), raises \<^verbatim>\<open>ValueError\<close> when
  nothing matches or when text remains after the match, and then builds the date or the
  time, which raises \<^verbatim>\<open>ValueError\<close> for a day the month does not have, for year 0 and for
  a second above 59.  The expressions are
  \<^verbatim>\<open>%Y = \d\d\d\d\<close>, \<^verbatim>\<open>%m = 1[0-2]|0[1-9]|[1-9]\<close>,
  \<^verbatim>\<open>%d = 3[0-1]|[1-2]\d|0[1-9]|[1-9]| [1-9]\<close>, \<^verbatim>\<open>%H = 2[0-3]|[0-1]\d|\d\<close>,
  \<^verbatim>\<open>%M = [0-5]\d|\d\<close> and \<^verbatim>\<open>%S = 6[0-1]|[0-5]\d|\d\<close>.
  Each matcher returns the ways it can match a prefix, as (value, rest) in the order tried.
  Below 256 the class \<^verbatim>\<open>\d\<close> holds the ten decimal digits only.
\<close>

definition classe :: "string \<Rightarrow> char \<Rightarrow> bool" where
  "classe cs c \<longleftrightarrow> c \<in> set cs"

definition digito :: "char \<Rightarrow> bool" where
  "digito = classe ''0123456789''"

text \<open>
  \<^verbatim>\<open>str.isdigit()\<close>: the string is not empty and every character is a digit character.
  Below 256 these are the ten decimal digits and the superscripts two, three and one
  (U+00B2, U+00B3, U+00B9), which are digits without being decimal digits.
\<close>

definition digito_py :: "char \<Rightarrow> bool" where
  "digito_py c \<longleftrightarrow> digito c \<or> c = CHR 0xB2 \<or> c = CHR 0xB3 \<or> c = CHR 0xB9"

definition isdigit :: "string \<Rightarrow> bool" where
  "isdigit s \<longleftrightarrow> s \<noteq> [] \<and> list_all digito_py s"

definition valor_digito :: "char \<Rightarrow> nat" where
  "valor_digito c = of_char c - 48"

text \<open>\<^verbatim>\<open>int(text)\<close> for digits after an optional blank.\<close>

definition int_of :: "string \<Rightarrow> nat" where
  "int_of cs = foldl (\<lambda>n c. 10 * n + valor_digito c) 0 (filter digito cs)"

definition dois :: "(char \<Rightarrow> bool) \<Rightarrow> (char \<Rightarrow> bool) \<Rightarrow> string \<Rightarrow> (nat \<times> string) list" where
  "dois p q s = (case s of a # b # r \<Rightarrow> if p a \<and> q b then [(int_of [a, b], r)] else [] | _ \<Rightarrow> [])"

definition um :: "(char \<Rightarrow> bool) \<Rightarrow> string \<Rightarrow> (nat \<times> string) list" where
  "um p s = (case s of a # r \<Rightarrow> if p a then [(int_of [a], r)] else [] | _ \<Rightarrow> [])"

definition lit :: "char \<Rightarrow> string \<Rightarrow> string list" where
  "lit c s = (case s of a # r \<Rightarrow> if a = c then [r] else [] | _ \<Rightarrow> [])"

definition re_Y :: "string \<Rightarrow> (nat \<times> string) list" where
  "re_Y s = (case s of
               a # b # c # d # r \<Rightarrow>
                 if digito a \<and> digito b \<and> digito c \<and> digito d then [(int_of [a, b, c, d], r)] else []
             | _ \<Rightarrow> [])"

definition re_m :: "string \<Rightarrow> (nat \<times> string) list" where
  "re_m s = dois (classe ''1'') (classe ''012'') s @ dois (classe ''0'') (classe ''123456789'') s
            @ um (classe ''123456789'') s"

definition re_d :: "string \<Rightarrow> (nat \<times> string) list" where
  "re_d s = dois (classe ''3'') (classe ''01'') s @ dois (classe ''12'') digito s
            @ dois (classe ''0'') (classe ''123456789'') s @ um (classe ''123456789'') s
            @ dois (classe '' '') (classe ''123456789'') s"

definition re_H :: "string \<Rightarrow> (nat \<times> string) list" where
  "re_H s = dois (classe ''2'') (classe ''0123'') s @ dois (classe ''01'') digito s @ um digito s"

definition re_M :: "string \<Rightarrow> (nat \<times> string) list" where
  "re_M s = dois (classe ''012345'') digito s @ um digito s"

definition re_S :: "string \<Rightarrow> (nat \<times> string) list" where
  "re_S s = dois (classe ''6'') (classe ''01'') s @ dois (classe ''012345'') digito s @ um digito s"

definition casar_data :: "string \<Rightarrow> (nat \<times> nat \<times> nat \<times> string) list" where
  "casar_data s =
     [(y, m, d, r5). (y, r1) \<leftarrow> re_Y s, r2 \<leftarrow> lit CHR ''-'' r1, (m, r3) \<leftarrow> re_m r2,
                     r4 \<leftarrow> lit CHR ''-'' r3, (d, r5) \<leftarrow> re_d r4]"

definition casar_hora :: "string \<Rightarrow> (nat \<times> nat \<times> nat \<times> string) list" where
  "casar_hora s =
     [(h, m, sec, r5). (h, r1) \<leftarrow> re_H s, r2 \<leftarrow> lit CHR '':'' r1, (m, r3) \<leftarrow> re_M r2,
                       r4 \<leftarrow> lit CHR '':'' r3, (sec, r5) \<leftarrow> re_S r4]"

text \<open>The calendar arithmetic of \<^verbatim>\<open>date(y, m, d).toordinal()\<close>.\<close>

definition is_leap :: "nat \<Rightarrow> bool" where
  "is_leap y \<longleftrightarrow> y mod 4 = 0 \<and> (y mod 100 \<noteq> 0 \<or> y mod 400 = 0)"

definition days_in_month :: "nat \<Rightarrow> nat \<Rightarrow> nat" where
  "days_in_month y m =
     (if m = 2 \<and> is_leap y then 29
      else [31, 28, 31, 30, 31, 30, 31, 31, 30, 31, 30, 31] ! (m - 1))"

definition days_before_month :: "nat \<Rightarrow> nat \<Rightarrow> nat" where
  "days_before_month y m =
     [0, 31, 59, 90, 120, 151, 181, 212, 243, 273, 304, 334] ! (m - 1)
     + (if 2 < m \<and> is_leap y then 1 else 0)"

definition days_before_year :: "nat \<Rightarrow> nat" where
  "days_before_year y = (y - 1) * 365 + (y - 1) div 4 - (y - 1) div 100 + (y - 1) div 400"

definition ymd2ord :: "nat \<Rightarrow> nat \<Rightarrow> nat \<Rightarrow> date" where
  "ymd2ord y m d = days_before_year y + days_before_month y m + d"

datatype formato = FormatoData | FormatoHora

text \<open>
  \<open>FormatoData\<close> is \<^verbatim>\<open>"%Y-%m-%d"\<close> and gives midnight of the date; \<open>FormatoHora\<close> is
  \<^verbatim>\<open>"%H:%M:%S"\<close> and gives the time on 1900-01-01.
\<close>

fun strptime :: "string \<Rightarrow> formato \<Rightarrow> erro + datetime" where
  "strptime s FormatoData =
     (case casar_data s of
        [] \<Rightarrow> Inl ValueError
      | (y, m, d, r) # _ \<Rightarrow>
          if r \<noteq> [] then Inl ValueError
          else if 1 \<le> y \<and> y \<le> 9999 \<and> 1 \<le> m \<and> m \<le> 12 \<and> 1 \<le> d \<and> d \<le> days_in_month y m
               then Inr (combine (ymd2ord y m d) 0)
               else Inl ValueError)"
| "strptime s FormatoHora =
     (case casar_hora s of
        [] \<Rightarrow> Inl ValueError
      | (h, m, sec, r) # _ \<Rightarrow>
          if r \<noteq> [] then Inl ValueError
          else if h \<le> 23 \<and> m \<le> 59 \<and> sec \<le> 59
               then Inr (combine (ymd2ord 1900 1 1) (hms h m sec))
               else Inl ValueError)"

declare strptime.simps [simp del]

text \<open>\<^verbatim>\<open>verificar_formato_data\<close>: the \<^verbatim>\<open>ValueError\<close> is caught and answered with False.\<close>

definition verificar_formato_data :: "string \<Rightarrow> formato \<Rightarrow> bool" where
  "verificar_formato_data data_str fmt =
     (case strptime data_str fmt of Inl ValueError \<Rightarrow> False | Inl _ \<Rightarrow> False | Inr _ \<Rightarrow> True)"

section \<open>How PostgreSQL reads a date and a time\<close>

text \<open>
  The input functions of the types \<^verbatim>\<open>DATE\<close> and \<^verbatim>\<open>TIME\<close>, for the texts that can reach
  them, which are those that \<^verbatim>\<open>strptime\<close> accepts.  PostgreSQL takes a run of decimal
  digits, the separator, a second run, the same separator and a third run as one date (or
  time) field; a blank ends the field.  A date field must hold three numbers, and with a
  first number of three or more digits they are the year, the month and the day; a date
  field that ends in its separator, as the text \<^verbatim>\<open>2024-01- 8\<close> begins with, is invalid
  input syntax.  The numbers need no leading zero.  PostgreSQL accepts further forms
  (month names, fractions of a second, \<^verbatim>\<open>24:00:00\<close>, time zones), none of which passes the
  validation that comes first; here they are answered with the error.
\<close>

definition ler_digitos :: "string \<Rightarrow> string \<times> string" where
  "ler_digitos s = (takeWhile digito s, dropWhile digito s)"

text \<open>What follows the separator \<open>c\<close>, when the text begins with it.\<close>

definition apos :: "char \<Rightarrow> string \<Rightarrow> string option" where
  "apos c s = (case s of [] \<Rightarrow> None | a # r \<Rightarrow> if a = c then Some r else None)"

definition pg_date_in :: "string \<Rightarrow> erro + date" where
  "pg_date_in s =
     (let (ys, r1) = ler_digitos s in
      case apos CHR ''-'' r1 of
        None \<Rightarrow> Inl DataError
      | Some r2 \<Rightarrow>
          (let (ms, r3) = ler_digitos r2 in
           case apos CHR ''-'' r3 of
             None \<Rightarrow> Inl DataError
           | Some r4 \<Rightarrow>
               (let (ds, r5) = ler_digitos r4 in
                if r5 = [] \<and> 3 \<le> length ys \<and> ms \<noteq> [] \<and> length ms \<le> 2
                   \<and> ds \<noteq> [] \<and> length ds \<le> 2
                   \<and> 1 \<le> int_of ys \<and> 1 \<le> int_of ms \<and> int_of ms \<le> 12
                   \<and> 1 \<le> int_of ds \<and> int_of ds \<le> days_in_month (int_of ys) (int_of ms)
                then Inr (ymd2ord (int_of ys) (int_of ms) (int_of ds))
                else Inl DataError)))"

definition pg_time_in :: "string \<Rightarrow> erro + time" where
  "pg_time_in s =
     (let (hs, r1) = ler_digitos s in
      case apos CHR '':'' r1 of
        None \<Rightarrow> Inl DataError
      | Some r2 \<Rightarrow>
          (let (ms, r3) = ler_digitos r2 in
           case apos CHR '':'' r3 of
             None \<Rightarrow> Inl DataError
           | Some r4 \<Rightarrow>
               (let (ss, r5) = ler_digitos r4 in
                if r5 = [] \<and> hs \<noteq> [] \<and> ms \<noteq> [] \<and> ss \<noteq> []
                   \<and> int_of hs \<le> 23 \<and> int_of ms \<le> 59 \<and> int_of ss \<le> 59
                then Inr (hms (int_of hs) (int_of ms) (int_of ss))
                else Inl DataError)))"

section \<open>Input validation\<close>

text \<open>
  A query parameter is \<^verbatim>\<open>request.args.get(...)\<close>: \<open>None\<close> when it is absent.  \<open>vazio\<close> is
  Python's \<^verbatim>\<open>not x\<close> on it, and \<open>texto\<close> the string itself, read only where \<open>vazio\<close> has
  ruled \<open>None\<close> out.
\<close>

definition vazio :: "string option \<Rightarrow> bool" where
  "vazio x = (case x of None \<Rightarrow> True | Some s \<Rightarrow> s = [])"

definition texto :: "string option \<Rightarrow> string" where
  "texto x = (case x of None \<Rightarrow> [] | Some s \<Rightarrow> s)"

text \<open>
  The validation block of \<^verbatim>\<open>marca_consulta\<close>.  \<open>now\<close> is the source's local variable, the
  value of \<^verbatim>\<open>datetime.now() + timedelta(hours=1)\<close>.  \<open>Inr None\<close> is \<^verbatim>\<open>error is None\<close>,
  \<open>Inr (Some m)\<close> the error message, \<open>Inl e\<close> an exception leaving the block.
\<close>

definition validar_marca ::
  "datetime \<Rightarrow> string option \<Rightarrow> string option \<Rightarrow> string option \<Rightarrow> string option
   \<Rightarrow> erro + mensagem option" where
  "validar_marca now paciente medico data hora =
     (if vazio paciente then Inr (Some CampoPacienteVazio)
      else if length (texto paciente) \<noteq> 11 \<or> \<not> isdigit (texto paciente)
        then Inr (Some FormatoPacienteInvalido)
      else if vazio medico then Inr (Some CampoMedicoVazio)
      else if length (texto medico) \<noteq> 9 \<or> \<not> isdigit (texto medico)
        then Inr (Some FormatoMedicoInvalido)
      else if vazio data then Inr (Some CampoDataVazio)
      else if \<not> verificar_formato_data (texto data) FormatoData
        then Inr (Some FormatoDataInvalido)
      else if vazio hora then Inr (Some CampoHoraVazio)
      else if \<not> verificar_formato_data (texto hora) FormatoHora
        then Inr (Some FormatoHoraInvalido)
      else
        (case strptime (texto data) FormatoData of
           Inl e \<Rightarrow> Inl e
         | Inr dd \<Rightarrow>
             (case strptime (texto hora) FormatoHora of
                Inl e \<Rightarrow> Inl e
              | Inr hh \<Rightarrow>
                  (let time_request = combine (date_of dd) (time_of hh)
                   in if now > time_request
                        then Inr (Some (HorarioNoPassado (texto hora) (texto data)))
                      else if \<not> ((time_of time_request \<ge> hms 8 0 0
                                   \<and> time_of time_request < hms 13 0 0)
                                  \<or> (time_of time_request \<ge> hms 14 0 0
                                     \<and> time_of time_request < hms 19 0 0))
                        then Inr (Some HorarioForaDoExpediente)
                      else Inr None))))"

text \<open>The validation block of \<^verbatim>\<open>cancela_consulta\<close>.\<close>

definition validar_cancela ::
  "datetime \<Rightarrow> string option \<Rightarrow> string option \<Rightarrow> string option \<Rightarrow> string option
   \<Rightarrow> erro + mensagem option" where
  "validar_cancela now paciente medico data hora =
     (if vazio paciente then Inr (Some CampoPacienteVazio)
      else if length (texto paciente) \<noteq> 11 \<or> \<not> isdigit (texto paciente)
        then Inr (Some FormatoPacienteInvalido)
      else if vazio medico then Inr (Some CampoMedicoVazio)
      else if length (texto medico) \<noteq> 9 \<or> \<not> isdigit (texto medico)
        then Inr (Some FormatoMedicoInvalido)
      else if vazio data then Inr (Some CampoDataVazio)
      else if \<not> verificar_formato_data (texto data) FormatoData
        then Inr (Some FormatoDataInvalido)
      else if vazio hora then Inr (Some CampoHoraVazio)
      else if \<not> verificar_formato_data (texto hora) FormatoHora
        then Inr (Some FormatoHoraInvalido)
      else
        (case strptime (texto data) FormatoData of
           Inl e \<Rightarrow> Inl e
         | Inr dd \<Rightarrow>
             (case strptime (texto hora) FormatoHora of
                Inl e \<Rightarrow> Inl e
              | Inr hh \<Rightarrow>
                  (let time_request = combine (date_of dd) (time_of hh)
                   in if now > time_request
                        then Inr (Some (HorarioNoPassado (texto hora) (texto data)))
                      else if \<not> ((time_of time_request \<ge> hms 8 0 0
                                   \<and> time_of time_request < hms 13 0 0)
                                  \<or> (time_of time_request \<ge> hms 14 0 0
                                     \<and> time_of time_request < hms 19 0 0))
                        then Inr (Some HorarioForaDoExpediente)
                      else Inr None))))"

section \<open>Booking and cancelling\<close>

text \<open>
  The statements a request sends to the database inside \<^verbatim>\<open>with conn.transaction()\<close>.  Any
  of them can raise; \<open>falhas\<close> says which do, and with what message.  \<open>Begin\<close> and
  \<open>Commit\<close> are sent by the transaction block on entry and on normal exit.
\<close>

datatype stmt =
    Begin
  | SelClinica
  | SelPaciente
  | SelMedico
  | SelTrabalha
  | SelConsultaMedico
  | SelConsultaPaciente
  | SelPacienteNif
  | InsConsulta
  | DelConsulta
  | Commit

type_synonym falhas = "stmt \<Rightarrow> string option"

definition executar :: "falhas \<Rightarrow> stmt \<Rightarrow> 'a \<Rightarrow> erro + 'a" where
  "executar fl st v = (case fl st of Some msg \<Rightarrow> Inl (StoreError msg) | None \<Rightarrow> Inr v)"

text \<open>Sequencing: an exception skips what follows.\<close>

definition entao :: "erro + 'a \<Rightarrow> ('a \<Rightarrow> erro + 'b) \<Rightarrow> erro + 'b" where
  "entao r f = (case r of Inl e \<Rightarrow> Inl e | Inr v \<Rightarrow> f v)"

text \<open>
  A statement with the text parameters \<^verbatim>\<open>%(data)s\<close> and \<^verbatim>\<open>%(hora)s\<close>: unless the statement
  fails for another reason, PostgreSQL reads the two texts, and the statement raises
  \<open>DataError\<close> when it cannot; \<open>f\<close> is what the statement computes from the date and the
  time of day read.
\<close>

definition com_data_hora :: "string \<Rightarrow> string \<Rightarrow> (date \<Rightarrow> time \<Rightarrow> 'a) \<Rightarrow> erro + 'a" where
  "com_data_hora data hora f =
     entao (pg_date_in data) (\<lambda>d. entao (pg_time_in hora) (\<lambda>h. Inr (f d h)))"

definition executar_com :: "falhas \<Rightarrow> stmt \<Rightarrow> (erro + 'a) \<Rightarrow> erro + 'a" where
  "executar_com fl st r = entao (executar fl st ()) (\<lambda>_. r)"

text \<open>
  The body of the transaction of \<^verbatim>\<open>marca_consulta\<close>, with the parameters as the strings
  the request carries.  The weekday of the fourth query is computed by the program, with
  \<^verbatim>\<open>strptime\<close>; the date and the time of the later statements are read by PostgreSQL from
  the text.  The result is the response and the database as the transaction leaves it.
\<close>

definition marca_transacao ::
  "falhas \<Rightarrow> db \<Rightarrow> string \<Rightarrow> string \<Rightarrow> string \<Rightarrow> string \<Rightarrow> string
   \<Rightarrow> erro + (resposta \<times> db)" where
  "marca_transacao fl bd clin pac med data hora =
     entao (executar fl SelClinica (count_where (\<lambda>c. cl_nome c = clin) (tb_clinica bd)))
     (\<lambda>n. let clinica_existe = n > 0 in
      if clinica_existe then
        entao (executar fl SelPaciente (count_where (\<lambda>p. p_ssn p = pac) (tb_paciente bd)))
        (\<lambda>n. let paciente_existe = n > 0 in
         if paciente_existe then
           entao (executar fl SelMedico (count_where (\<lambda>m. m_nif m = med) (tb_medico bd)))
           (\<lambda>n. let medico_existe = n > 0 in
            if medico_existe then
              entao (strptime data FormatoData)
              (\<lambda>dd.
              entao (executar fl SelTrabalha
                       (count_where (\<lambda>t. t_nif t = med \<and> t_nome t = clin
                                          \<and> t_dia_da_semana t = int (weekday (date_of dd)))
                          (tb_trabalha bd)))
              (\<lambda>n. let medico_na_clinica = n > 0 in
               if medico_na_clinica then
                 entao (executar_com fl SelConsultaMedico
                          (com_data_hora data hora
                             (\<lambda>d h. count_where
                                       (\<lambda>c. c_nif c = med \<and> c_data c = d \<and> c_hora c = h)
                                       (tb_consulta bd))))
                 (\<lambda>n. let medico_tem_consulta = n > 0 in
                  if \<not> medico_tem_consulta then
                    entao (executar_com fl SelConsultaPaciente
                             (com_data_hora data hora
                                (\<lambda>d h. count_where
                                          (\<lambda>c. c_ssn c = pac \<and> c_data c = d \<and> c_hora c = h)
                                          (tb_consulta bd))))
                    (\<lambda>n. let paciente_tem_consulta = n > 0 in
                     if \<not> paciente_tem_consulta then
                       entao (executar fl SelPacienteNif
                                (filter (\<lambda>p. p_ssn p = pac) (tb_paciente bd)))
                       (\<lambda>linhas.
                          case linhas of
                            [] \<Rightarrow> Inl AttributeError
                          | linha # _ \<Rightarrow>
                              (let paciente_nif = p_nif linha in
                               if paciente_nif \<noteq> med then
                                 entao (executar_com fl InsConsulta
                                          (com_data_hora data hora
                                             (\<lambda>d h. bd\<lparr>tb_consulta := tb_consulta bd @
                                                [\<lparr>c_ssn = pac, c_nif = med, c_nome = clin,
                                                  c_data = d, c_hora = h\<rparr>]\<rparr>)))
                                 (\<lambda>bd'. Inr ((Sucesso (MarcouConsulta pac med clin hora data),
                                               200), bd'))
                               else Inr ((Erro MedicoProprio, 400), bd)))
                     else Inr ((Erro (PacienteTemConsulta hora data), 400), bd))
                  else Inr ((Erro (MedicoTemConsulta hora data), 400), bd))
               else Inr ((Erro (MedicoNaoTrabalha
                                  (lista_dias_da_semana ! weekday (date_of dd))), 400), bd)))
            else Inr ((Erro (MedicoNaoExistente med), 400), bd))
         else Inr ((Erro (PacienteNaoExistente pac), 400), bd))
      else Inr ((Erro (ClinicaNaoExistente clin), 404), bd))"

text \<open>
  \<^verbatim>\<open>try: with conn.transaction(): ... except Exception as e: return 500\<close>.  The
  transaction block begins the transaction, runs the body and commits; an exception from
  any of the three discards what the body wrote and reaches the \<^verbatim>\<open>except\<close>.
\<close>

definition secao_transacao :: "falhas \<Rightarrow> (erro + (resposta \<times> db)) \<Rightarrow> erro + (resposta \<times> db)" where
  "secao_transacao fl corpo_tx =
     entao (executar fl Begin ()) (\<lambda>_. entao corpo_tx (\<lambda>r. executar fl Commit r))"

definition em_transacao :: "falhas \<Rightarrow> db \<Rightarrow> (erro + (resposta \<times> db)) \<Rightarrow> resposta \<times> db" where
  "em_transacao fl bd corpo_tx =
     (case secao_transacao fl corpo_tx of
        Inl e \<Rightarrow> ((Erro (Excecao e), 500), bd)
      | Inr (resp, bd') \<Rightarrow> (resp, bd'))"

text \<open>
  What \<^verbatim>\<open>marca_consulta\<close> runs inside the transaction block, from the raw parameters.
\<close>

definition corpo_marca ::
  "falhas \<Rightarrow> db \<Rightarrow> string \<Rightarrow> string option \<Rightarrow> string option \<Rightarrow> string option \<Rightarrow> string option
   \<Rightarrow> erro + (resposta \<times> db)" where
  "corpo_marca fl bd clin paciente medico data hora =
     marca_transacao fl bd clin (texto paciente) (texto medico) (texto data) (texto hora)"

text \<open>
  \<^verbatim>\<open>marca_consulta(clinica)\<close> with its four query parameters: validation, then the
  transaction.  \<open>Inl e\<close> is an exception that leaves the function.
\<close>

definition marca_consulta ::
  "falhas \<Rightarrow> datetime \<Rightarrow> db \<Rightarrow> string \<Rightarrow> string option \<Rightarrow> string option \<Rightarrow> string option
   \<Rightarrow> string option \<Rightarrow> erro + (resposta \<times> db)" where
  "marca_consulta fl now bd clin paciente medico data hora =
     entao (validar_marca now paciente medico data hora)
     (\<lambda>error.
        case error of
          Some msg \<Rightarrow> Inr ((Erro msg, 400), bd)
        | None \<Rightarrow>
            Inr (em_transacao fl bd (corpo_marca fl bd clin paciente medico data hora)))"

text \<open>
  The body of the transaction of \<^verbatim>\<open>cancela_consulta\<close>.  The \<^verbatim>\<open>DELETE\<close> leaves the rows it
  does not match and reports in \<^verbatim>\<open>cur.rowcount\<close> how many it matched; PostgreSQL reads
  the date and the time it matches from the text parameters.
\<close>

definition cancela_transacao ::
  "falhas \<Rightarrow> db \<Rightarrow> string \<Rightarrow> string \<Rightarrow> string \<Rightarrow> string \<Rightarrow> string
   \<Rightarrow> erro + (resposta \<times> db)" where
  "cancela_transacao fl bd clin pac med data hora =
     entao (executar fl SelClinica (count_where (\<lambda>c. cl_nome c = clin) (tb_clinica bd)))
     (\<lambda>n. let clinica_existe = n > 0 in
      if clinica_existe then
        entao (executar fl SelPaciente (count_where (\<lambda>p. p_ssn p = pac) (tb_paciente bd)))
        (\<lambda>n. let paciente_existe = n > 0 in
         if paciente_existe then
           entao (executar fl SelMedico (count_where (\<lambda>m. m_nif m = med) (tb_medico bd)))
           (\<lambda>n. let medico_existe = n > 0 in
            if medico_existe then
              entao (executar_com fl DelConsulta
                       (com_data_hora data hora
                          (\<lambda>d h. let alvo = (\<lambda>c. c_ssn c = pac \<and> c_nif c = med \<and> c_nome c = clin
                                                  \<and> c_data c = d \<and> c_hora c = h)
                                 in (bd\<lparr>tb_consulta := filter (\<lambda>c. \<not> alvo c) (tb_consulta bd)\<rparr>,
                                     count_where alvo (tb_consulta bd)))))
              (\<lambda>(bd', rowcount).
                 if rowcount > 0
                 then Inr ((SoMensagem (CancelouConsulta pac med clin hora data), 200), bd')
                 else Inr ((Erro ConsultaNaoEncontrada, 400), bd'))
            else Inr ((Erro (MedicoNaoExistente med), 400), bd))
         else Inr ((Erro (PacienteNaoExistente pac), 400), bd))
      else Inr ((Erro (ClinicaNaoExistente clin), 404), bd))"

definition corpo_cancela ::
  "falhas \<Rightarrow> db \<Rightarrow> string \<Rightarrow> string option \<Rightarrow> string option \<Rightarrow> string option \<Rightarrow> string option
   \<Rightarrow> erro + (resposta \<times> db)" where
  "corpo_cancela fl bd clin paciente medico data hora =
     cancela_transacao fl bd clin (texto paciente) (texto medico) (texto data) (texto hora)"

definition cancela_consulta ::
  "falhas \<Rightarrow> datetime \<Rightarrow> db \<Rightarrow> string \<Rightarrow> string option \<Rightarrow> string option \<Rightarrow> string option
   \<Rightarrow> string option \<Rightarrow> erro + (resposta \<times> db)" where
  "cancela_consulta fl now bd clin paciente medico data hora =
     entao (validar_cancela now paciente medico data hora)
     (\<lambda>error.
        case error of
          Some msg \<Rightarrow> Inr ((Erro msg, 400), bd)
        | None \<Rightarrow>
            Inr (em_transacao fl bd (corpo_cancela fl bd clin paciente medico data hora)))"

text \<open>
  How a run with failing statements relates to the run without failures: it gives the same
  result, or it raised the error of a statement that fails.
\<close>

definition so_falha :: "falhas \<Rightarrow> (erro + 'a) \<Rightarrow> (erro + 'a) \<Rightarrow> bool" where
  "so_falha fl r r0 \<longleftrightarrow> r = r0 \<or> (\<exists>st msg. fl st = Some msg \<and> r = Inl (StoreError msg))"

text \<open>A store on which only the commit fails, with the given message.\<close>

definition falha_no_commit :: "string \<Rightarrow> falhas" where
  "falha_no_commit msg = (\<lambda>st. if st = Commit then Some msg else None)"

section \<open>The specification's reading of the operations\<close>

text \<open>
  The specification describes validation, booking and cancellation as ordered lists of
  rules of which the first that fails decides the answer.  The definitions of this section
  follow its words, to be compared with the functions above.
\<close>

text \<open>The first error of a list of rule outcomes (\<open>None\<close>: the rule passes).\<close>

fun primeiro_erro :: "'a option list \<Rightarrow> 'a option" where
  "primeiro_erro [] = None"
| "primeiro_erro (None # rs) = primeiro_erro rs"
| "primeiro_erro (Some e # rs) = Some e"

text \<open>
  Rule 1: patient id present, exactly 11 characters, all digit characters (the decimal
  digits and the three superscript digits).
\<close>

definition regra_paciente :: "string option \<Rightarrow> mensagem option" where
  "regra_paciente paciente =
     (case paciente of
        None \<Rightarrow> Some CampoPacienteVazio
      | Some s \<Rightarrow> if s = [] then Some CampoPacienteVazio
                  else if length s = 11 \<and> list_all digito_py s then None
                  else Some FormatoPacienteInvalido)"

text \<open>Rule 2: doctor id present, exactly 9 characters, all digit characters.\<close>

definition regra_medico :: "string option \<Rightarrow> mensagem option" where
  "regra_medico medico =
     (case medico of
        None \<Rightarrow> Some CampoMedicoVazio
      | Some s \<Rightarrow> if s = [] then Some CampoMedicoVazio
                  else if length s = 9 \<and> list_all digito_py s then None
                  else Some FormatoMedicoInvalido)"

text \<open>Rule 3: date present, parseable as YYYY-MM-DD.\<close>

definition regra_data :: "string option \<Rightarrow> mensagem option" where
  "regra_data data =
     (case data of
        None \<Rightarrow> Some CampoDataVazio
      | Some s \<Rightarrow> if s = [] then Some CampoDataVazio
                  else (case strptime s FormatoData of
                          Inl _ \<Rightarrow> Some FormatoDataInvalido | Inr _ \<Rightarrow> None))"

text \<open>Rule 4: time present, parseable as HH:MM:SS.\<close>

definition regra_hora :: "string option \<Rightarrow> mensagem option" where
  "regra_hora hora =
     (case hora of
        None \<Rightarrow> Some CampoHoraVazio
      | Some s \<Rightarrow> if s = [] then Some CampoHoraVazio
                  else (case strptime s FormatoHora of
                          Inl _ \<Rightarrow> Some FormatoHoraInvalido | Inr _ \<Rightarrow> None))"

text \<open>
  The instant a parseable date and time denote; rules 5 and 6 speak of it, and have
  nothing to say (they pass) where rules 3 and 4 have already failed.
\<close>

definition instante :: "string option \<Rightarrow> string option \<Rightarrow> datetime option" where
  "instante data hora =
     (case (strptime (texto data) FormatoData, strptime (texto hora) FormatoHora) of
        (Inr dd, Inr hh) \<Rightarrow> Some (combine (date_of dd) (time_of hh))
      | _ \<Rightarrow> None)"

text \<open>Rule 5: the combined instant must not be strictly before now + 1 hour.\<close>

definition regra_passado :: "datetime \<Rightarrow> string option \<Rightarrow> string option \<Rightarrow> mensagem option" where
  "regra_passado now data hora =
     (case instante data hora of
        None \<Rightarrow> None
      | Some t \<Rightarrow> if t < now then Some (HorarioNoPassado (texto hora) (texto data)) else None)"

text \<open>Rule 6: the time of day must fall in [08:00:00,13:00:00) or [14:00:00,19:00:00).\<close>

definition na_janela :: "time \<Rightarrow> bool" where
  "na_janela t \<longleftrightarrow> (hms 8 0 0 \<le> t \<and> t < hms 13 0 0) \<or> (hms 14 0 0 \<le> t \<and> t < hms 19 0 0)"

definition regra_janela :: "string option \<Rightarrow> string option \<Rightarrow> mensagem option" where
  "regra_janela data hora =
     (case instante data hora of
        None \<Rightarrow> None
      | Some t \<Rightarrow> if na_janela (time_of t) then None else Some HorarioForaDoExpediente)"

definition regras ::
  "datetime \<Rightarrow> string option \<Rightarrow> string option \<Rightarrow> string option \<Rightarrow> string option
   \<Rightarrow> mensagem option list" where
  "regras now paciente medico data hora =
     [regra_paciente paciente, regra_medico medico, regra_data data, regra_hora hora,
      regra_passado now data hora, regra_janela data hora]"

text \<open>
  A check of the transaction manager with the response of its failure, and the first
  failure of a list of checks.
\<close>

fun primeira_falha :: "(bool \<times> 'a) list \<Rightarrow> 'a option" where
  "primeira_falha [] = None"
| "primeira_falha ((ok, r) # cs) = (if ok then primeira_falha cs else Some r)"

text \<open>The row of a patient: the one \<^verbatim>\<open>fetchone()\<close> returns for the patient's id.\<close>

definition linha_paciente :: "db \<Rightarrow> string \<Rightarrow> paciente_row option" where
  "linha_paciente bd pac = find (\<lambda>p. p_ssn p = pac) (tb_paciente bd)"

text \<open>The seven checks of a booking, in the specification's order.\<close>

definition verificacoes_marca ::
  "db \<Rightarrow> string \<Rightarrow> string \<Rightarrow> string \<Rightarrow> string \<Rightarrow> string \<Rightarrow> date \<Rightarrow> time
   \<Rightarrow> (bool \<times> resposta) list" where
  "verificacoes_marca bd clin pac med data hora d h =
     [(\<exists>c \<in> set (tb_clinica bd). cl_nome c = clin,
         (Erro (ClinicaNaoExistente clin), 404)),
      (\<exists>p \<in> set (tb_paciente bd). p_ssn p = pac,
         (Erro (PacienteNaoExistente pac), 400)),
      (\<exists>m \<in> set (tb_medico bd). m_nif m = med,
         (Erro (MedicoNaoExistente med), 400)),
      (\<exists>t \<in> set (tb_trabalha bd).
          t_nif t = med \<and> t_nome t = clin \<and> t_dia_da_semana t = int (weekday d),
         (Erro (MedicoNaoTrabalha (lista_dias_da_semana ! weekday d)), 400)),
      (\<not> (\<exists>c \<in> set (tb_consulta bd). c_nif c = med \<and> c_data c = d \<and> c_hora c = h),
         (Erro (MedicoTemConsulta hora data), 400)),
      (\<not> (\<exists>c \<in> set (tb_consulta bd). c_ssn c = pac \<and> c_data c = d \<and> c_hora c = h),
         (Erro (PacienteTemConsulta hora data), 400)),
      (\<not> (\<exists>p. linha_paciente bd pac = Some p \<and> p_nif p = med),
         (Erro MedicoProprio, 400))]"

definition marca_spec ::
  "db \<Rightarrow> string \<Rightarrow> string \<Rightarrow> string \<Rightarrow> string \<Rightarrow> string \<Rightarrow> date \<Rightarrow> time \<Rightarrow> resposta \<times> db" where
  "marca_spec bd clin pac med data hora d h =
     (case primeira_falha (verificacoes_marca bd clin pac med data hora d h) of
        Some r \<Rightarrow> (r, bd)
      | None \<Rightarrow>
          ((Sucesso (MarcouConsulta pac med clin hora data), 200),
           bd\<lparr>tb_consulta := tb_consulta bd @
                [\<lparr>c_ssn = pac, c_nif = med, c_nome = clin, c_data = d, c_hora = h\<rparr>]\<rparr>))"

text \<open>The three checks of a cancellation and the exact match it deletes.\<close>

definition verificacoes_cancela :: "db \<Rightarrow> string \<Rightarrow> string \<Rightarrow> string \<Rightarrow> (bool \<times> resposta) list" where
  "verificacoes_cancela bd clin pac med =
     [(\<exists>c \<in> set (tb_clinica bd). cl_nome c = clin,
         (Erro (ClinicaNaoExistente clin), 404)),
      (\<exists>p \<in> set (tb_paciente bd). p_ssn p = pac,
         (Erro (PacienteNaoExistente pac), 400)),
      (\<exists>m \<in> set (tb_medico bd). m_nif m = med,
         (Erro (MedicoNaoExistente med), 400))]"

definition corresponde ::
  "string \<Rightarrow> string \<Rightarrow> string \<Rightarrow> date \<Rightarrow> time \<Rightarrow> consulta_row \<Rightarrow> bool" where
  "corresponde pac med clin d h c \<longleftrightarrow>
     c_ssn c = pac \<and> c_nif c = med \<and> c_nome c = clin \<and> c_data c = d \<and> c_hora c = h"

definition cancela_spec ::
  "db \<Rightarrow> string \<Rightarrow> string \<Rightarrow> string \<Rightarrow> string \<Rightarrow> string \<Rightarrow> date \<Rightarrow> time \<Rightarrow> resposta \<times> db" where
  "cancela_spec bd clin pac med data hora d h =
     (case primeira_falha (verificacoes_cancela bd clin pac med) of
        Some r \<Rightarrow> (r, bd)
      | None \<Rightarrow>
          if \<exists>c \<in> set (tb_consulta bd). corresponde pac med clin d h c
          then ((SoMensagem (CancelouConsulta pac med clin hora data), 200),
                bd\<lparr>tb_consulta := filter (\<lambda>c. \<not> corresponde pac med clin d h c) (tb_consulta bd)\<rparr>)
          else ((Erro ConsultaNaoEncontrada, 400), bd))"

text \<open>
  What the specification promises of the slots \<open>hs\<close>, as (date, time) pairs, returned for
  the doctor \<open>nif\<close> at the clinic \<open>clin\<close>: at most three; each strictly after \<open>now\<close>, on a
  weekday of one of the doctor's affiliations at the clinic, and different from the date and
  time of every appointment of the doctor; and in chronological order (the order on pairs
  is lexicographic: by date, then by time).
\<close>

definition horarios_ok :: "db \<Rightarrow> string \<Rightarrow> datetime \<Rightarrow> string \<Rightarrow> (date \<times> time) list \<Rightarrow> bool" where
  "horarios_ok bd clin now nif hs \<longleftrightarrow>
     length hs \<le> 3
     \<and> list_all (\<lambda>(d, t). now < combine d t
                 \<and> (\<exists>tr \<in> set (tb_trabalha bd).
                       t_nif tr = nif \<and> t_nome tr = clin \<and> t_dia_da_semana tr = int (weekday d))
                 \<and> (\<forall>c \<in> set (tb_consulta bd). c_nif c = nif \<longrightarrow> (c_data c, c_hora c) \<noteq> (d, t)))
          hs
     \<and> sorted_wrt (<) hs"

section \<open>A small network\<close>

text \<open>
  One clinic, one cardiologist who works there on Mondays and already has an appointment on
  Monday 2024-01-08 (ordinal 738893) at 08:30, and two patients, the second of whom has the
  doctor's own id in the column \<^verbatim>\<open>nif\<close>.  The clock of the examples is 07:00 of that Monday.
\<close>

definition bd_exemplo :: db where
  "bd_exemplo =
     \<lparr>tb_clinica = [\<lparr>cl_nome = ''A'', cl_morada = ''Rua 1''\<rparr>],
      tb_medico = [\<lparr>m_nif = ''123456789'', m_nome = ''Ana'', m_especialidade = ''Cardiologia''\<rparr>],
      tb_trabalha = [\<lparr>t_nif = ''123456789'', t_nome = ''A'', t_dia_da_semana = 0\<rparr>],
      tb_paciente = [\<lparr>p_ssn = ''12345678901'', p_nif = ''987654321''\<rparr>,
                     \<lparr>p_ssn = ''22222222222'', p_nif = ''123456789''\<rparr>],
      tb_consulta = [\<lparr>c_ssn = ''22222222222'', c_nif = ''123456789'', c_nome = ''A'',
                       c_data = 738893, c_hora = hms 8 30 0\<rparr>]\<rparr>"

definition now_exemplo :: datetime where
  "now_exemplo = combine 738893 (hms 7 0 0)"

text \<open>
  The loop invariant of the scan, and what holds of the list it returns: \<open>dias\<close> are the
  doctor's weekdays at the clinic and \<open>cs\<close> the appointments the query fetched.
\<close>

definition horario_bom :: "int list \<Rightarrow> consulta_row list \<Rightarrow> datetime \<Rightarrow> datetime \<Rightarrow> bool" where
  "horario_bom dias cs now h \<longleftrightarrow>
     now < h \<and> int (weekday (date_of h)) \<in> set dias
     \<and> list_all (\<lambda>c. h \<noteq> combine (c_data c) (c_hora c)) cs"

definition inv_disp ::
  "int list \<Rightarrow> consulta_row list \<Rightarrow> datetime \<Rightarrow> date \<Rightarrow> datetime list \<Rightarrow> bool" where
  "inv_disp dias cs now d disp \<longleftrightarrow>
     length disp \<le> 3 \<and> sorted_wrt (<) disp
     \<and> list_all (\<lambda>h. h < combine d 0 \<and> horario_bom dias cs now h) disp"

section \<open>The slot generator: lemmas\<close>

lemma passos_0: "fim \<le> inicio \<Longrightarrow> passos inicio fim s = 0"
  by (cases "s = 0") (simp_all add: passos_def)

lemma less_passos_iff: "0 < s \<Longrightarrow> k < passos inicio fim s \<longleftrightarrow> inicio + k * s < fim"
proof -
  assume s: "0 < s"
  have "k < passos inicio fim s \<longleftrightarrow> Suc k \<le> (fim - inicio + s - 1) div s"
    by (simp add: passos_def Suc_le_eq)
  also have "\<dots> \<longleftrightarrow> Suc k * s \<le> fim - inicio + s - 1"
    using s by (simp add: less_eq_div_iff_mult_less_eq)
  also have "\<dots> \<longleftrightarrow> k * s < fim - inicio"
    using s by auto
  also have "\<dots> \<longleftrightarrow> inicio + k * s < fim"
    by auto
  finally show ?thesis .
qed

lemma passos_Suc:
  assumes s: "0 < s" and lt: "inicio < fim"
  shows "passos inicio fim s = Suc (passos (inicio + s) fim s)"
proof -
  let ?p = "passos inicio fim s" and ?q = "passos (inicio + s) fim s"
  have shift: "k < ?q \<longleftrightarrow> Suc k < ?p" for k
    using s by (simp add: less_passos_iff add.assoc add.commute)
  have pos: "0 < ?p"
    using s lt by (simp add: less_passos_iff)
  have "\<not> Suc ?q < ?p"
    using shift [of ?q] by simp
  moreover have "?q < ?p"
  proof (cases ?q)
    case 0
    with pos show ?thesis by simp
  next
    case (Suc j)
    then have "j < ?q" by simp
    then have "Suc j < ?p" by (simp only: shift)
    with Suc show ?thesis by simp
  qed
  ultimately show ?thesis by simp
qed

lemma candidatos_Nil: "fim \<le> inicio \<Longrightarrow> candidatos inicio fim s = []"
  by (simp add: candidatos_def passos_0)

lemma candidatos_Cons:
  assumes "0 < s" "inicio < fim"
  shows "candidatos inicio fim s = inicio # candidatos (inicio + s) fim s"
proof -
  have "map (\<lambda>k. inicio + k * s) [0..<Suc n] = inicio # map (\<lambda>k. inicio + s + k * s) [0..<n]" for n
    by (simp add: upt_conv_Cons map_Suc_upt [symmetric] del: upt_Suc)
  then show ?thesis
    using assms by (simp add: candidatos_def passos_Suc)
qed

lemma set_candidatos:
  "0 < s \<Longrightarrow> set (candidatos inicio fim s) = {t. inicio \<le> t \<and> t < fim \<and> (\<exists>k. t = inicio + k * s)}"
  by (auto simp: candidatos_def less_passos_iff)

lemma sorted_candidatos: "0 < s \<Longrightarrow> sorted_wrt (<) (candidatos inicio fim s)"
  by (simp add: candidatos_def sorted_wrt_map sorted_wrt_upt)

lemma int_meia_hora: "minutes 30 = int MEIA_HORA"
  by (simp add: minutes_def MEIA_HORA_def)

lemma add_timedelta_ok:
  assumes "US_PER_DAY \<le> x" "x + MEIA_HORA < (MAXORDINAL + 1) * US_PER_DAY"
  shows "add_timedelta x (minutes 30) = Inr (x + MEIA_HORA)"
proof -
  have U: "0 < US_PER_DAY" by (simp add: US_PER_DAY_def)
  have d: "(int x + int MEIA_HORA) div int US_PER_DAY = int ((x + MEIA_HORA) div US_PER_DAY)"
    by (simp add: zdiv_int)
  have lo: "0 < (x + MEIA_HORA) div US_PER_DAY"
    using assms(1) U by (simp add: div_greater_zero_iff)
  have "(x + MEIA_HORA) div US_PER_DAY < MAXORDINAL + 1"
    using assms(2) U by (simp add: div_less_iff_less_mult)
  then have hi: "(x + MEIA_HORA) div US_PER_DAY \<le> MAXORDINAL" by simp
  show ?thesis
    unfolding add_timedelta_def int_meia_hora Let_def d using lo hi by simp
qed

lemma add_timedelta_overflow:
  assumes "(MAXORDINAL + 1) * US_PER_DAY \<le> x + MEIA_HORA"
  shows "add_timedelta x (minutes 30) = Inl OverflowError"
proof -
  have U: "0 < US_PER_DAY" by (simp add: US_PER_DAY_def)
  have d: "(int x + int MEIA_HORA) div int US_PER_DAY = int ((x + MEIA_HORA) div US_PER_DAY)"
    by (simp add: zdiv_int)
  have "\<not> (x + MEIA_HORA) div US_PER_DAY < MAXORDINAL + 1"
    using assms U by (simp add: div_less_iff_less_mult)
  then have hi: "\<not> (x + MEIA_HORA) div US_PER_DAY \<le> MAXORDINAL" by simp
  show ?thesis
    unfolding add_timedelta_def int_meia_hora Let_def d using hi by simp
qed

lemma MEIA_HORA_pos: "0 < MEIA_HORA"
  by (simp add: MEIA_HORA_def)

lemma gerar_loop_ok:
  assumes "US_PER_DAY \<le> inicio"
    and "inicio + passos inicio fim MEIA_HORA * MEIA_HORA < (MAXORDINAL + 1) * US_PER_DAY"
  shows "gerar_loop inicio fim 30 acc =
         Some (Inr (acc @ filter (\<lambda>t. \<not> almoco t) (candidatos inicio fim MEIA_HORA)))"
  using assms
proof (induction "passos inicio fim MEIA_HORA" arbitrary: inicio acc)
  case 0
  then have "\<not> inicio < fim"
    using less_passos_iff [OF MEIA_HORA_pos, of 0 inicio fim] by simp
  then show ?case
    by (subst gerar_loop.simps) (simp add: candidatos_Nil)
next
  case (Suc n)
  then have lt: "inicio < fim"
    using less_passos_iff [OF MEIA_HORA_pos, of 0 inicio fim] by simp
  have p: "passos inicio fim MEIA_HORA = Suc (passos (inicio + MEIA_HORA) fim MEIA_HORA)"
    by (rule passos_Suc [OF MEIA_HORA_pos lt])
  with Suc.hyps(2) have n: "n = passos (inicio + MEIA_HORA) fim MEIA_HORA" by simp
  have b: "inicio + MEIA_HORA + passos (inicio + MEIA_HORA) fim MEIA_HORA * MEIA_HORA
           < (MAXORDINAL + 1) * US_PER_DAY"
    using Suc.prems(2) by (simp add: p add.assoc)
  then have b1: "inicio + MEIA_HORA < (MAXORDINAL + 1) * US_PER_DAY"
    by (rule le_less_trans [rotated]) simp
  have step: "add_timedelta inicio (minutes 30) = Inr (inicio + MEIA_HORA)"
    by (rule add_timedelta_ok [OF Suc.prems(1) b1])
  have IH: "gerar_loop (inicio + MEIA_HORA) fim 30 acc' =
        Some (Inr (acc' @ filter (\<lambda>t. \<not> almoco t) (candidatos (inicio + MEIA_HORA) fim MEIA_HORA)))"
    for acc'
    using Suc.hyps(1) [OF n _ b] Suc.prems(1) by simp
  show ?case
    by (subst gerar_loop.simps)
       (simp add: lt step IH candidatos_Cons [OF MEIA_HORA_pos lt] almoco_def Let_def)
qed

lemma gerar_loop_overflow:
  assumes "US_PER_DAY \<le> inicio" "inicio < fim"
    and "(MAXORDINAL + 1) * US_PER_DAY \<le> inicio + passos inicio fim MEIA_HORA * MEIA_HORA"
  shows "gerar_loop inicio fim 30 acc = Some (Inl OverflowError)"
  using assms
proof (induction "passos inicio fim MEIA_HORA" arbitrary: inicio acc)
  case 0
  then show ?case
    using less_passos_iff [OF MEIA_HORA_pos, of 0 inicio fim] by simp
next
  case (Suc n)
  note lt = Suc.prems(2)
  have p: "passos inicio fim MEIA_HORA = Suc (passos (inicio + MEIA_HORA) fim MEIA_HORA)"
    by (rule passos_Suc [OF MEIA_HORA_pos lt])
  with Suc.hyps(2) have n: "n = passos (inicio + MEIA_HORA) fim MEIA_HORA" by simp
  have b: "(MAXORDINAL + 1) * US_PER_DAY \<le>
           inicio + MEIA_HORA + passos (inicio + MEIA_HORA) fim MEIA_HORA * MEIA_HORA"
    using Suc.prems(3) by (simp add: p add.assoc)
  show ?case
  proof (cases "(MAXORDINAL + 1) * US_PER_DAY \<le> inicio + MEIA_HORA")
    case True
    show ?thesis
      by (subst gerar_loop.simps) (simp add: lt add_timedelta_overflow [OF True] Let_def)
  next
    case False
    then have step: "add_timedelta inicio (minutes 30) = Inr (inicio + MEIA_HORA)"
      using add_timedelta_ok [OF Suc.prems(1)] by simp
    have lt': "inicio + MEIA_HORA < fim"
    proof (rule ccontr)
      assume "\<not> inicio + MEIA_HORA < fim"
      then have "passos (inicio + MEIA_HORA) fim MEIA_HORA = 0"
        by (simp add: passos_0)
      with b False show False by simp
    qed
    have IH: "gerar_loop (inicio + MEIA_HORA) fim 30 acc' = Some (Inl OverflowError)" for acc'
      using Suc.hyps(1) [OF n _ lt' b] Suc.prems(1) by simp
    show ?thesis
      by (subst gerar_loop.simps) (simp add: lt step IH Let_def)
  qed
qed

lemma add_timedelta_Inr:
  assumes "add_timedelta x (minutes 30) = Inr y"
  shows "y = x + MEIA_HORA"
  using assms unfolding add_timedelta_def int_meia_hora Let_def
  by (auto split: if_splits simp: nat_add_distrib)

lemma gerar_loop_Inr:
  "gerar_loop inicio fim 30 acc = Some (Inr hs) \<Longrightarrow>
   hs = acc @ filter (\<lambda>t. \<not> almoco t) (candidatos inicio fim MEIA_HORA)"
proof (induction "passos inicio fim MEIA_HORA" arbitrary: inicio acc)
  case 0
  then have "\<not> inicio < fim"
    using less_passos_iff [OF MEIA_HORA_pos, of 0 inicio fim] by simp
  with 0(2) show ?case
    by (subst (asm) gerar_loop.simps) (simp add: candidatos_Nil)
next
  case (Suc n)
  then have lt: "inicio < fim"
    using less_passos_iff [OF MEIA_HORA_pos, of 0 inicio fim] by simp
  have p: "passos inicio fim MEIA_HORA = Suc (passos (inicio + MEIA_HORA) fim MEIA_HORA)"
    by (rule passos_Suc [OF MEIA_HORA_pos lt])
  with Suc.hyps(2) have n: "n = passos (inicio + MEIA_HORA) fim MEIA_HORA" by simp
  let ?acc' = "if time_of inicio \<noteq> hms 13 0 0 \<and> time_of inicio \<noteq> hms 13 30 0
               then acc @ [inicio] else acc"
  from Suc.prems lt
  have run: "(case add_timedelta inicio (minutes 30) of
                Inl e \<Rightarrow> Some (Inl e)
              | Inr inicio' \<Rightarrow> gerar_loop inicio' fim 30 ?acc') = Some (Inr hs)"
    by (subst (asm) gerar_loop.simps) (simp add: Let_def)
  then obtain y where y: "add_timedelta inicio (minutes 30) = Inr y"
    by (cases "add_timedelta inicio (minutes 30)") auto
  then have "y = inicio + MEIA_HORA" by (rule add_timedelta_Inr)
  with run y have "gerar_loop (inicio + MEIA_HORA) fim 30 ?acc' = Some (Inr hs)" by simp
  then have "hs = ?acc' @ filter (\<lambda>t. \<not> almoco t) (candidatos (inicio + MEIA_HORA) fim MEIA_HORA)"
    by (rule Suc.hyps(1) [OF n])
  then show ?case
    by (simp add: candidatos_Cons [OF MEIA_HORA_pos lt] almoco_def)
qed

lemma gerar_loop_termina: "\<exists>r. gerar_loop inicio fim 30 acc = Some r"
proof (induction "passos inicio fim MEIA_HORA" arbitrary: inicio acc)
  case 0
  then have "\<not> inicio < fim"
    using less_passos_iff [OF MEIA_HORA_pos, of 0 inicio fim] by simp
  then show ?case
    by (subst gerar_loop.simps) simp
next
  case (Suc n)
  then have lt: "inicio < fim"
    using less_passos_iff [OF MEIA_HORA_pos, of 0 inicio fim] by simp
  have p: "passos inicio fim MEIA_HORA = Suc (passos (inicio + MEIA_HORA) fim MEIA_HORA)"
    by (rule passos_Suc [OF MEIA_HORA_pos lt])
  with Suc.hyps(2) have n: "n = passos (inicio + MEIA_HORA) fim MEIA_HORA" by simp
  show ?case
  proof (cases "add_timedelta inicio (minutes 30)")
    case (Inl e)
    then show ?thesis
      by (subst gerar_loop.simps) (simp add: lt Let_def)
  next
    case (Inr y)
    then have "y = inicio + MEIA_HORA" by (rule add_timedelta_Inr)
    with Inr Suc.hyps(1) [OF n] show ?thesis
      by (subst gerar_loop.simps) (simp add: lt Let_def)
  qed
qed

lemma recolher_eq:
  "recolher now cs hp disp =
   disp @ take (3 - length disp)
            (filter (\<lambda>h. h > now \<and> list_all (\<lambda>c. h \<noteq> combine (c_data c) (c_hora c)) cs) hp)"
  by (induction hp arbitrary: disp) (auto simp: Suc_diff_le take_Cons')

section \<open>The scan: lemmas\<close>

lemma US_PER_DAY_pos: "0 < US_PER_DAY"
  by (simp add: US_PER_DAY_def)

lemma date_of_combine: "t < US_PER_DAY \<Longrightarrow> date_of (combine d t) = d"
  by (simp add: date_of_def combine_def)

lemma time_of_combine: "t < US_PER_DAY \<Longrightarrow> time_of (combine d t) = t"
  by (simp add: time_of_def combine_def)

lemma combine_date_time: "combine (date_of x) (time_of x) = x"
  by (simp add: combine_def date_of_def time_of_def)

lemma date_of_entre:
  assumes "combine d 0 \<le> h" "h < combine (Suc d) 0"
  shows "date_of h = d"
proof -
  have "d * US_PER_DAY \<le> h" "h < d * US_PER_DAY + US_PER_DAY"
    using assms by (simp_all add: combine_def)
  then have "h div US_PER_DAY = d"
    using US_PER_DAY_pos
    by (metis add.commute div_nat_eqI mult.commute mult_Suc_right)
  then show ?thesis by (simp add: date_of_def)
qed

lemma horario_limites:
  "combine d 0 \<le> combine d inicio_horario" "combine d fim_horario \<le> combine (Suc d) 0"
  by (simp_all add: combine_def inicio_horario_def fim_horario_def hms_def US_PER_DAY_def)

lemma passo_dia_inv:
  assumes inv: "inv_disp dias cs now d disp"
    and run: "passo_dia dias cs now d disp = Some (Inr disp')"
  shows "inv_disp dias cs now (Suc d) disp'"
proof (cases "int (weekday d) \<in> set dias")
  case False
  with run have "disp' = disp" by (simp add: passo_dia_def)
  moreover have "combine d 0 \<le> combine (Suc d) 0" by (simp add: combine_def)
  ultimately show ?thesis
    using inv by (auto simp: inv_disp_def list_all_iff)
next
  case True
  let ?ini = "combine d inicio_horario" and ?fim = "combine d fim_horario"
  let ?ok = "\<lambda>h. h > now \<and> list_all (\<lambda>c. h \<noteq> combine (c_data c) (c_hora c)) cs"
  from run True obtain hp where g: "gerar_loop ?ini ?fim 30 [] = Some (Inr hp)"
    and d': "disp' = recolher now cs hp disp"
    by (auto simp: passo_dia_def gerar_horarios_disponiveis_def intervalo_minutos_def
             split: bind_splits sum.splits)
  have hp: "hp = filter (\<lambda>t. \<not> almoco t) (candidatos ?ini ?fim MEIA_HORA)"
    using gerar_loop_Inr [OF g] by simp
  define ys where "ys = take (3 - length disp) (filter ?ok hp)"
  have disp': "disp' = disp @ ys"
    by (simp add: d' ys_def recolher_eq)
  have sub: "set ys \<subseteq> set (filter ?ok hp)"
    unfolding ys_def by (rule set_take_subset)
  have rng: "combine d 0 \<le> h \<and> h < combine (Suc d) 0" if "h \<in> set ys" for h
  proof -
    from that sub have "h \<in> set (candidatos ?ini ?fim MEIA_HORA)" by (auto simp: hp)
    then have "?ini \<le> h" "h < ?fim"
      by (simp_all add: set_candidatos [OF MEIA_HORA_pos])
    with horario_limites [of d] show ?thesis by linarith
  qed
  have good: "horario_bom dias cs now h" if "h \<in> set ys" for h
  proof -
    from rng [OF that] have "date_of h = d" by (simp add: date_of_entre)
    moreover from that sub have "?ok h" by auto
    ultimately show ?thesis using True by (simp add: horario_bom_def)
  qed
  have srt: "sorted_wrt (<) ys"
    unfolding ys_def hp
    by (intro sorted_wrt_take sorted_wrt_filter sorted_candidatos MEIA_HORA_pos)
  have old: "h < combine d 0 \<and> horario_bom dias cs now h" if "h \<in> set disp" for h
    using inv that by (simp add: inv_disp_def list_all_iff)
  have "length ys \<le> 3 - length disp"
    by (simp add: ys_def)
  moreover have "length disp \<le> 3"
    using inv by (simp add: inv_disp_def)
  ultimately have len: "length (disp @ ys) \<le> 3"
    by simp
  have "sorted_wrt (<) (disp @ ys)"
    using inv srt old rng by (fastforce simp: sorted_wrt_append inv_disp_def)
  moreover have "h < combine (Suc d) 0" if "h \<in> set disp" for h
  proof -
    have "combine d 0 \<le> combine (Suc d) 0" by (simp add: combine_def)
    with old [OF that] show ?thesis by linarith
  qed
  then have "list_all (\<lambda>h. h < combine (Suc d) 0 \<and> horario_bom dias cs now h) (disp @ ys)"
    using old rng good unfolding list_all_iff by auto
  ultimately show ?thesis
    using len by (simp add: inv_disp_def disp')
qed

lemma next_day_Inr: "next_day d = Inr d' \<Longrightarrow> d' = Suc d \<and> d < MAXORDINAL"
  by (auto simp: next_day_def split: if_splits)

lemma passo_dia_termina: "\<exists>r. passo_dia dias cs now d disp = Some r"
proof -
  obtain r where "gerar_loop (combine d inicio_horario) (combine d fim_horario) 30 [] = Some r"
    using gerar_loop_termina by blast
  then show ?thesis
    by (cases r)
       (simp_all add: passo_dia_def gerar_horarios_disponiveis_def intervalo_minutos_def)
qed

lemma horarios_loop_termina: "\<exists>r. horarios_loop dias cs now d disp = Some r"
proof (induction "MAXORDINAL - d" arbitrary: d disp rule: less_induct)
  case less
  show ?case
  proof (cases "length disp < 3")
    case False
    then show ?thesis by (subst horarios_loop.simps) simp
  next
    case True
    obtain r where r: "passo_dia dias cs now d disp = Some r"
      using passo_dia_termina by blast
    show ?thesis
    proof (cases r)
      case (Inl e)
      with r True show ?thesis by (subst horarios_loop.simps) simp
    next
      case (Inr disp')
      show ?thesis
      proof (cases "next_day d")
        case (Inl e)
        with r Inr True show ?thesis by (subst horarios_loop.simps) simp
      next
        case nd: (Inr d')
        then have "d' = Suc d" "d < MAXORDINAL" by (auto dest: next_day_Inr)
        then have "MAXORDINAL - d' < MAXORDINAL - d" by simp
        then obtain r' where "horarios_loop dias cs now d' disp' = Some r'"
          using less by blast
        with r Inr nd True show ?thesis by (subst horarios_loop.simps) simp
      qed
    qed
  qed
qed

lemma weekday_lt_7: "weekday d < 7"
  by (simp add: weekday_def)

lemma horarios_loop_sem_dias:
  assumes "\<forall>k\<in>set dias. k < 0 \<or> 6 < k" "length disp < 3"
  shows "horarios_loop dias cs now d disp = Some (Inl OverflowError)"
  using assms(2)
proof (induction "MAXORDINAL - d" arbitrary: d rule: less_induct)
  case less
  have "int (weekday d) \<notin> set dias"
    using assms(1) weekday_lt_7 [of d] by fastforce
  then have r: "passo_dia dias cs now d disp = Some (Inr disp)"
    by (simp add: passo_dia_def)
  show ?case
  proof (cases "next_day d")
    case (Inl e)
    then have "e = OverflowError" by (auto simp: next_day_def split: if_splits)
    with Inl r less.prems show ?thesis by (subst horarios_loop.simps) simp
  next
    case nd: (Inr d')
    then have "d' = Suc d" "d < MAXORDINAL" by (auto dest: next_day_Inr)
    then have "MAXORDINAL - d' < MAXORDINAL - d" by simp
    then have "horarios_loop dias cs now d' disp = Some (Inl OverflowError)"
      using less by blast
    with r nd less.prems show ?thesis by (subst horarios_loop.simps) simp
  qed
qed

lemma horarios_loop_inv:
  assumes "inv_disp dias cs now d disp" "horarios_loop dias cs now d disp = Some (Inr hs)"
  shows "length hs = 3 \<and> sorted_wrt (<) hs \<and> list_all (horario_bom dias cs now) hs"
  using assms
proof (induction "MAXORDINAL - d" arbitrary: d disp rule: less_induct)
  case less
  show ?case
  proof (cases "length disp < 3")
    case False
    with less.prems(2) have "hs = disp" by (subst (asm) horarios_loop.simps) simp
    with False less.prems(1) show ?thesis
      by (auto simp: inv_disp_def list_all_iff)
  next
    case True
    from less.prems(2) True obtain disp' d'
      where r: "passo_dia dias cs now d disp = Some (Inr disp')"
        and nd: "next_day d = Inr d'"
        and rec: "horarios_loop dias cs now d' disp' = Some (Inr hs)"
      by (subst (asm) horarios_loop.simps) (auto split: bind_splits sum.splits)
    from nd have d': "d' = Suc d" "d < MAXORDINAL" by (auto dest: next_day_Inr)
    then have m: "MAXORDINAL - d' < MAXORDINAL - d" by simp
    have "inv_disp dias cs now d' disp'"
      using passo_dia_inv [OF less.prems(1) r] d' by simp
    then show ?thesis
      by (rule less.hyps [OF m _ rec])
  qed
qed

lemma horarios_medico_inv:
  assumes "horarios_medico bd clin now nif = Some (Inr hs)"
  shows "length hs = 3 \<and> sorted_wrt (<) hs
         \<and> list_all (horario_bom (dias_da_semana bd nif clin) (consultas_existentes bd nif now) now) hs"
proof -
  have "inv_disp (dias_da_semana bd nif clin) (consultas_existentes bd nif now) now (date_of now) []"
    by (simp add: inv_disp_def)
  then show ?thesis
    using assms unfolding horarios_medico_def by (rule horarios_loop_inv)
qed

lemma por_medico_entradas:
  assumes "por_medico bd clin now ms acc = Some (Inr res)"
  shows "\<exists>novos. res = acc @ novos
           \<and> list_all2 (\<lambda>(nif, nome) e. e_medico e = nome @ '' ('' @ nif @ '')''
                 \<and> (\<exists>hs. horarios_medico bd clin now nif = Some (Inr hs)
                          \<and> e_horarios e = map (\<lambda>h. (date_of h, time_of h)) hs)) ms novos"
  using assms
proof (induction ms arbitrary: acc)
  case Nil
  then show ?case by simp
next
  case (Cons m ms)
  obtain nif nome where m: "m = (nif, nome)" by (cases m)
  from Cons.prems m obtain hs where hs: "horarios_medico bd clin now nif = Some (Inr hs)"
    and rec: "por_medico bd clin now ms
                (acc @ [\<lparr>e_medico = nome @ '' ('' @ nif @ '')'',
                          e_horarios = map (\<lambda>h. (date_of h, time_of h)) hs\<rparr>]) = Some (Inr res)"
    by (auto split: option.splits sum.splits)
  from Cons.IH [OF rec] obtain novos where
    "res = (acc @ [\<lparr>e_medico = nome @ '' ('' @ nif @ '')'',
                    e_horarios = map (\<lambda>h. (date_of h, time_of h)) hs\<rparr>]) @ novos"
    and "list_all2 (\<lambda>(nif, nome) e. e_medico e = nome @ '' ('' @ nif @ '')''
                 \<and> (\<exists>hs. horarios_medico bd clin now nif = Some (Inr hs)
                          \<and> e_horarios e = map (\<lambda>h. (date_of h, time_of h)) hs)) ms novos"
    by blast
  with hs m show ?case
    by (intro exI [of _ "\<lparr>e_medico = nome @ '' ('' @ nif @ '')'',
                    e_horarios = map (\<lambda>h. (date_of h, time_of h)) hs\<rparr> # novos"]) simp
qed

lemma lista_entradas:
  assumes "lista_medicos_clinica_especialidade bd now clin esp = Some (Inr (Medicos res, st))"
  shows "list_all2 (\<lambda>(nif, nome) e. e_medico e = nome @ '' ('' @ nif @ '')''
                 \<and> (\<exists>hs. horarios_medico bd clin now nif = Some (Inr hs)
                          \<and> e_horarios e = map (\<lambda>h. (date_of h, time_of h)) hs))
           (medicos_query bd clin esp) res"
proof -
  from assms have "por_medico bd clin now (medicos_query bd clin esp) [] = Some (Inr res)"
    by (auto simp: lista_medicos_clinica_especialidade_def Let_def
             split: if_splits option.splits sum.splits)
  from por_medico_entradas [OF this] show ?thesis by simp
qed

lemma datetime_less_iff:
  "x < y \<longleftrightarrow> date_of x < date_of y \<or> (date_of x = date_of y \<and> time_of x < time_of y)"
proof -
  have x: "x = date_of x * US_PER_DAY + time_of x" and y: "y = date_of y * US_PER_DAY + time_of y"
    by (simp_all add: date_of_def time_of_def)
  have tx: "time_of x < US_PER_DAY" and ty: "time_of y < US_PER_DAY"
    using US_PER_DAY_pos by (simp_all add: time_of_def)
  show ?thesis
  proof (cases "date_of x = date_of y")
    case True
    then show ?thesis using x y by (metis add_less_cancel_left less_irrefl)
  next
    case False
    have up: "a * US_PER_DAY + s < b * US_PER_DAY + t" if "a < b" "s < US_PER_DAY" for a b s t
    proof -
      from that have "a * US_PER_DAY + s < Suc a * US_PER_DAY" by simp
      also have "\<dots> \<le> b * US_PER_DAY" using that(1) by (simp only: mult_le_mono1 Suc_leI)
      finally show ?thesis by simp
    qed
    show ?thesis
    proof (cases "date_of x < date_of y")
      case True
      from up [OF True tx, of "time_of y"] x y True show ?thesis by simp
    next
      case ge: False
      with False have "date_of y < date_of x" by simp
      from up [OF this ty, of "time_of x"] x y ge False show ?thesis by simp
    qed
  qed
qed

lemma horario_bom_ok:
  assumes "horario_bom (dias_da_semana bd nif clin) (consultas_existentes bd nif now) now h"
  shows "now < combine (date_of h) (time_of h)
         \<and> (\<exists>tr \<in> set (tb_trabalha bd).
               t_nif tr = nif \<and> t_nome tr = clin \<and> t_dia_da_semana tr = int (weekday (date_of h)))
         \<and> (\<forall>c \<in> set (tb_consulta bd). c_nif c = nif \<longrightarrow> (c_data c, c_hora c) \<noteq> (date_of h, time_of h))"
proof (intro conjI ballI impI)
  from assms show "now < combine (date_of h) (time_of h)"
    by (simp add: horario_bom_def combine_date_time)
next
  from assms have "int (weekday (date_of h)) \<in> set (dias_da_semana bd nif clin)"
    by (simp add: horario_bom_def)
  then show "\<exists>tr \<in> set (tb_trabalha bd).
               t_nif tr = nif \<and> t_nome tr = clin \<and> t_dia_da_semana tr = int (weekday (date_of h))"
    by (auto simp: dias_da_semana_def)
next
  fix c assume c: "c \<in> set (tb_consulta bd)" "c_nif c = nif"
  show "(c_data c, c_hora c) \<noteq> (date_of h, time_of h)"
  proof
    assume "(c_data c, c_hora c) = (date_of h, time_of h)"
    then have eq: "c_data c = date_of h" "c_hora c = time_of h" by simp_all
    from assms have "now < h" by (simp add: horario_bom_def)
    then have "date_of now < date_of h \<or> (date_of now = date_of h \<and> time_of now < time_of h)"
      by (rule iffD1 [OF datetime_less_iff])
    with c eq have "c \<in> set (consultas_existentes bd nif now)"
      by (auto simp: consultas_existentes_def)
    moreover from assms
    have "list_all (\<lambda>c. h \<noteq> combine (c_data c) (c_hora c)) (consultas_existentes bd nif now)"
      by (simp add: horario_bom_def)
    ultimately have "h \<noteq> combine (c_data c) (c_hora c)"
      by (simp add: list_all_iff)
    with eq show False by (simp add: combine_date_time)
  qed
qed

lemma horarios_medico_ok:
  assumes "horarios_medico bd clin now nif = Some (Inr hs)"
  shows "horarios_ok bd clin now nif (map (\<lambda>h. (date_of h, time_of h)) hs)"
proof -
  from horarios_medico_inv [OF assms]
  have len: "length hs = 3" and srt: "sorted_wrt (<) hs"
    and good: "list_all (horario_bom (dias_da_semana bd nif clin) (consultas_existentes bd nif now) now) hs"
    by simp_all
  have lex: "(date_of x, time_of x) < (date_of y, time_of y)" if "x < y" for x y
    using iffD1 [OF datetime_less_iff that] by auto
  have "sorted_wrt (<) (map (\<lambda>h. (date_of h, time_of h)) hs)"
    unfolding sorted_wrt_map
    by (rule sorted_wrt_mono_rel [OF _ srt]) (rule lex)
  moreover have "list_all (\<lambda>(d, t). now < combine d t
                 \<and> (\<exists>tr \<in> set (tb_trabalha bd).
                       t_nif tr = nif \<and> t_nome tr = clin \<and> t_dia_da_semana tr = int (weekday d))
                 \<and> (\<forall>c \<in> set (tb_consulta bd). c_nif c = nif \<longrightarrow> (c_data c, c_hora c) \<noteq> (d, t)))
          (map (\<lambda>h. (date_of h, time_of h)) hs)"
    using good horario_bom_ok [of bd nif clin now]
    by (simp add: list_all_iff)
  ultimately show ?thesis
    using len by (simp add: horarios_ok_def)
qed

section \<open>The claims about the slot generator\<close>

text \<open>
  Claim C5, as stated, says that for every start and end instant the generator returns the
  sequence of half-hour steps from the start that lie before the end.  It fails at the upper
  end of the datetime range: from 9999-12-31 23:45 with end 9999-12-31 23:50 the loop keeps
  the start and then raises \<^verbatim>\<open>OverflowError\<close> on \<^verbatim>\<open>inicio += timedelta(minutes=30)\<close>, so no
  sequence is returned.
\<close>

theorem gerar_horarios_disponiveis_overflow:
  "gerar_horarios_disponiveis (combine MAXORDINAL (hms 23 45 0)) (combine MAXORDINAL (hms 23 50 0)) 30
   = Some (Inl OverflowError)"
  unfolding gerar_horarios_disponiveis_def
  by (subst gerar_loop.simps)
     (simp add: combine_def hms_def MAXORDINAL_def US_PER_DAY_def add_timedelta_def minutes_def
        time_of_def Let_def)

text \<open>
  Claim C5, amended: when the start is not before the end the generator returns the empty
  sequence; and for every valid start instant and every end instant that lies at least 30
  minutes before the end of 9999-12-31, it returns a strictly increasing sequence whose
  members are exactly the instants \<open>t\<close> with \<open>inicio \<le> t < fim\<close> and
  \<open>t = inicio + k * 30 min\<close> for a natural \<open>k\<close>, except those whose time of day is 13:00 or
  13:30.
\<close>

theorem gerar_horarios_disponiveis_spec:
  "(fim \<le> inicio \<longrightarrow> gerar_horarios_disponiveis inicio fim 30 = Some (Inr []))
   \<and> (0 < date_of inicio \<and> fim + MEIA_HORA \<le> combine (MAXORDINAL + 1) 0 \<longrightarrow>
        (\<exists>hs. gerar_horarios_disponiveis inicio fim 30 = Some (Inr hs)
              \<and> sorted_wrt (<) hs
              \<and> set hs = {t. inicio \<le> t \<and> t < fim \<and> (\<exists>k. t = inicio + k * MEIA_HORA)
                              \<and> time_of t \<noteq> hms 13 0 0 \<and> time_of t \<noteq> hms 13 30 0}))"
proof (intro conjI impI)
  assume "fim \<le> inicio"
  then show "gerar_horarios_disponiveis inicio fim 30 = Some (Inr [])"
    unfolding gerar_horarios_disponiveis_def by (subst gerar_loop.simps) simp
next
  assume a: "0 < date_of inicio \<and> fim + MEIA_HORA \<le> combine (MAXORDINAL + 1) 0"
  let ?n = "passos inicio fim MEIA_HORA"
  let ?hs = "filter (\<lambda>t. \<not> almoco t) (candidatos inicio fim MEIA_HORA)"
  from a have lo: "US_PER_DAY \<le> inicio"
    using US_PER_DAY_pos by (simp add: date_of_def div_greater_zero_iff)
  have "gerar_horarios_disponiveis inicio fim 30 = Some (Inr ?hs)"
  proof (cases "inicio < fim")
    case False
    then show ?thesis
      unfolding gerar_horarios_disponiveis_def
      by (subst gerar_loop.simps) (simp add: candidatos_Nil)
  next
    case True
    then have "0 < ?n"
      by (simp add: less_passos_iff [OF MEIA_HORA_pos])
    then obtain j where j: "?n = Suc j" by (cases ?n) auto
    then have "j < ?n" by simp
    then have "inicio + j * MEIA_HORA < fim"
      by (simp add: less_passos_iff [OF MEIA_HORA_pos])
    with a j have hi: "inicio + ?n * MEIA_HORA < (MAXORDINAL + 1) * US_PER_DAY"
      by (simp add: combine_def)
    show ?thesis
      unfolding gerar_horarios_disponiveis_def using gerar_loop_ok [OF lo hi, of "[]"] by simp
  qed
  moreover have "sorted_wrt (<) ?hs"
    by (intro sorted_wrt_filter sorted_candidatos MEIA_HORA_pos)
  moreover have "set ?hs = {t. inicio \<le> t \<and> t < fim \<and> (\<exists>k. t = inicio + k * MEIA_HORA)
                              \<and> time_of t \<noteq> hms 13 0 0 \<and> time_of t \<noteq> hms 13 30 0}"
    by (auto simp: set_candidatos [OF MEIA_HORA_pos] almoco_def)
  ultimately show "\<exists>hs. gerar_horarios_disponiveis inicio fim 30 = Some (Inr hs)
              \<and> sorted_wrt (<) hs
              \<and> set hs = {t. inicio \<le> t \<and> t < fim \<and> (\<exists>k. t = inicio + k * MEIA_HORA)
                              \<and> time_of t \<noteq> hms 13 0 0 \<and> time_of t \<noteq> hms 13 30 0}"
    by blast
qed

theorem gerar_horarios_disponiveis_spec_witness:
  "gerar_horarios_disponiveis (combine 738893 (hms 19 0 0)) (combine 738893 (hms 8 0 0)) 30
     = Some (Inr [])
   \<and> (\<exists>hs. gerar_horarios_disponiveis (combine 738893 (hms 12 0 0))
               (combine 738893 (hms 14 30 0)) 30 = Some (Inr hs)
          \<and> sorted_wrt (<) hs
          \<and> set hs = {t. combine 738893 (hms 12 0 0) \<le> t \<and> t < combine 738893 (hms 14 30 0)
                          \<and> (\<exists>k. t = combine 738893 (hms 12 0 0) + k * MEIA_HORA)
                          \<and> time_of t \<noteq> hms 13 0 0 \<and> time_of t \<noteq> hms 13 30 0})"
proof -
  have a: "combine 738893 (hms 8 0 0) \<le> combine 738893 (hms 19 0 0)"
    by (simp add: combine_def hms_def)
  have b: "0 < date_of (combine 738893 (hms 12 0 0))
           \<and> combine 738893 (hms 14 30 0) + MEIA_HORA \<le> combine (MAXORDINAL + 1) 0"
    by (simp add: combine_def hms_def date_of_def US_PER_DAY_def MEIA_HORA_def MAXORDINAL_def)
  from a b
    gerar_horarios_disponiveis_spec [of "combine 738893 (hms 8 0 0)" "combine 738893 (hms 19 0 0)"]
    gerar_horarios_disponiveis_spec [of "combine 738893 (hms 14 30 0)" "combine 738893 (hms 12 0 0)"]
  show ?thesis by blast
qed

section \<open>The claims about the availability resolver\<close>

lemmas tempo_defs = combine_def hms_def US_PER_DAY_def MAXORDINAL_def date_of_def time_of_def
  weekday_def minutes_def

lemma exemplo_consultas:
  "consultas_existentes bd_exemplo ''123456789'' now_exemplo =
     [\<lparr>c_ssn = ''22222222222'', c_nif = ''123456789'', c_nome = ''A'',
       c_data = 738893, c_hora = hms 8 30 0\<rparr>]"
  by (simp add: consultas_existentes_def bd_exemplo_def now_exemplo_def tempo_defs)

lemma exemplo_dias: "dias_da_semana bd_exemplo ''123456789'' ''A'' = [0]"
  by (simp add: dias_da_semana_def bd_exemplo_def)

lemma exemplo_horarios:
  "horarios_medico bd_exemplo ''A'' now_exemplo ''123456789'' =
     Some (Inr [combine 738893 (hms 8 0 0), combine 738893 (hms 9 0 0),
                combine 738893 (hms 9 30 0)])"
  unfolding horarios_medico_def exemplo_consultas exemplo_dias
  apply (subst horarios_loop.simps)
  apply (simp add: passo_dia_def gerar_horarios_disponiveis_def gerar_loop.simps tempo_defs
      now_exemplo_def inicio_horario_def fim_horario_def intervalo_minutos_def
      add_timedelta_def next_day_def Let_def)
  apply (subst horarios_loop.simps)
  apply simp
  done

lemma exemplo_medicos: "medicos_query bd_exemplo ''A'' ''Cardiologia'' = [(''123456789'', ''Ana'')]"
  by (simp add: medicos_query_def bd_exemplo_def)

lemma exemplo_lista:
  "lista_medicos_clinica_especialidade bd_exemplo now_exemplo ''A'' ''Cardiologia'' =
     Some (Inr (Medicos [\<lparr>e_medico = ''Ana (123456789)'',
                           e_horarios = [(738893, hms 8 0 0), (738893, hms 9 0 0),
                                         (738893, hms 9 30 0)]\<rparr>], 200))"
proof -
  have "count_where (\<lambda>c. cl_nome c = ''A'') (tb_clinica bd_exemplo) = 1"
    by (simp add: count_where_def bd_exemplo_def)
  moreover have "map (\<lambda>h. (date_of h, time_of h))
          [combine 738893 (hms 8 0 0), combine 738893 (hms 9 0 0), combine 738893 (hms 9 30 0)]
        = [(738893, hms 8 0 0), (738893, hms 9 0 0), (738893, hms 9 30 0)]"
    by (simp add: tempo_defs)
  ultimately show ?thesis
    by (simp add: lista_medicos_clinica_especialidade_def exemplo_medicos exemplo_horarios)
qed

lemma por_medico_termina: "\<exists>r. por_medico bd clin now ms acc = Some r"
proof (induction ms arbitrary: acc)
  case Nil
  show ?case by simp
next
  case (Cons m ms)
  obtain nif nome where m: "m = (nif, nome)" by (cases m)
  obtain r where r: "horarios_medico bd clin now nif = Some r"
    unfolding horarios_medico_def using horarios_loop_termina by blast
  show ?case
  proof (cases r)
    case (Inl e)
    with r m show ?thesis by simp
  next
    case (Inr hs)
    with r m Cons.IH show ?thesis by simp
  qed
qed

lemma lista_termina: "\<exists>r. lista_medicos_clinica_especialidade bd now clin esp = Some r"
proof -
  obtain r where r: "por_medico bd clin now (medicos_query bd clin esp) [] = Some r"
    using por_medico_termina by blast
  then show ?thesis
    by (cases r) (simp_all add: lista_medicos_clinica_especialidade_def Let_def)
qed

text \<open>
  Claim C2: the day-by-day scan terminates for every input.  The loop has no cap of its own,
  but the date it advances is bounded: every run ends, either by the loop test or with the
  \<^verbatim>\<open>OverflowError\<close> of \<^verbatim>\<open>data_atual += timedelta(days=1)\<close> at 9999-12-31.  So do the scan of
  one doctor from the current date and the whole resolver.  For a doctor with no working
  weekday (none in 0..6), the scan from an empty list always ends with that exception.
\<close>

theorem horarios_loop_termina_sempre:
  "(\<exists>r. horarios_loop dias cs now d disp = Some r)
   \<and> (\<exists>r. horarios_medico bd clin now nif = Some r)
   \<and> (\<exists>r. lista_medicos_clinica_especialidade bd now clin esp = Some r)
   \<and> ((\<forall>k\<in>set dias. k < 0 \<or> 6 < k) \<longrightarrow>
        horarios_loop dias cs now d [] = Some (Inl OverflowError))"
proof (intro conjI impI)
  show "\<exists>r. horarios_loop dias cs now d disp = Some r"
    by (rule horarios_loop_termina)
  show "\<exists>r. horarios_medico bd clin now nif = Some r"
    unfolding horarios_medico_def by (rule horarios_loop_termina)
  show "\<exists>r. lista_medicos_clinica_especialidade bd now clin esp = Some r"
    by (rule lista_termina)
  assume "\<forall>k\<in>set dias. k < 0 \<or> 6 < k"
  then show "horarios_loop dias cs now d [] = Some (Inl OverflowError)"
    by (rule horarios_loop_sem_dias) simp
qed

theorem horarios_loop_termina_sempre_witness:
  "(\<exists>r. horarios_loop [7] [] now_exemplo 738893 [] = Some r)
   \<and> (\<exists>r. horarios_medico bd_exemplo ''A'' now_exemplo ''123456789'' = Some r)
   \<and> (\<exists>r. lista_medicos_clinica_especialidade bd_exemplo now_exemplo ''A'' ''Cardiologia'' = Some r)
   \<and> horarios_loop [7] [] now_exemplo 738893 [] = Some (Inl OverflowError)"
  using horarios_loop_termina_sempre [of "[7]" "[]" now_exemplo 738893 "[]" bd_exemplo "''A''"
      "''123456789''" "''Cardiologia''"]
  by simp

text \<open>
  Claim C10: whenever the scan of a doctor returns a list of slots, the list has exactly
  three members; so has the list of every doctor in a response of the resolver.
\<close>

theorem horarios_exatamente_tres:
  "(horarios_medico bd clin now nif = Some (Inr hs) \<longrightarrow> length hs = 3)
   \<and> (lista_medicos_clinica_especialidade bd now clin esp = Some (Inr (Medicos res, st)) \<longrightarrow>
        list_all (\<lambda>e. length (e_horarios e) = 3) res)"
proof (intro conjI impI)
  assume "horarios_medico bd clin now nif = Some (Inr hs)"
  from horarios_medico_inv [OF this] show "length hs = 3" by simp
next
  assume "lista_medicos_clinica_especialidade bd now clin esp = Some (Inr (Medicos res, st))"
  from lista_entradas [OF this]
  have "list_all2 (\<lambda>m e. length (e_horarios e) = 3) (medicos_query bd clin esp) res"
    by (rule list_all2_mono) (auto dest: horarios_medico_inv)
  then show "list_all (\<lambda>e. length (e_horarios e) = 3) res"
    by (auto simp: list_all2_conv_all_nth list_all_length)
qed

theorem horarios_exatamente_tres_witness:
  "horarios_medico bd_exemplo ''A'' now_exemplo ''123456789'' =
     Some (Inr [combine 738893 (hms 8 0 0), combine 738893 (hms 9 0 0),
                combine 738893 (hms 9 30 0)])
   \<and> length [combine 738893 (hms 8 0 0), combine 738893 (hms 9 0 0),
             combine 738893 (hms 9 30 0)] = 3
   \<and> list_all (\<lambda>e. length (e_horarios e) = 3)
        [\<lparr>e_medico = ''Ana (123456789)'',
          e_horarios = [(738893, hms 8 0 0), (738893, hms 9 0 0), (738893, hms 9 30 0)]\<rparr>]"
  using horarios_exatamente_tres [of bd_exemplo "''A''" now_exemplo "''123456789''"
      "[combine 738893 (hms 8 0 0), combine 738893 (hms 9 0 0), combine 738893 (hms 9 30 0)]"
      "''Cardiologia''"
      "[\<lparr>e_medico = ''Ana (123456789)'',
          e_horarios = [(738893, hms 8 0 0), (738893, hms 9 0 0), (738893, hms 9 30 0)]\<rparr>]" 200]
    exemplo_horarios exemplo_lista
  by simp

text \<open>
  Claim C3: in a response of the resolver, the entries are those of the doctors the query
  selected, in its order; each has at most three slots, every slot is strictly after
  \<open>now\<close>, falls on a weekday on which the doctor works at the clinic, differs from the
  (date, time) of every appointment of the doctor, and the slots are in chronological order.
\<close>

theorem lista_horarios_ok:
  assumes "lista_medicos_clinica_especialidade bd now clin esp = Some (Inr (Medicos res, st))"
  shows "list_all2 (\<lambda>(nif, nome) e. e_medico e = nome @ '' ('' @ nif @ '')''
                      \<and> horarios_ok bd clin now nif (e_horarios e))
           (medicos_query bd clin esp) res"
  by (rule list_all2_mono [OF lista_entradas [OF assms]]) (auto dest: horarios_medico_ok)

theorem lista_horarios_ok_witness:
  "lista_medicos_clinica_especialidade bd_exemplo now_exemplo ''A'' ''Cardiologia'' =
     Some (Inr (Medicos [\<lparr>e_medico = ''Ana (123456789)'',
                           e_horarios = [(738893, hms 8 0 0), (738893, hms 9 0 0),
                                         (738893, hms 9 30 0)]\<rparr>], 200))
   \<and> horarios_ok bd_exemplo ''A'' now_exemplo ''123456789''
        [(738893, hms 8 0 0), (738893, hms 9 0 0), (738893, hms 9 30 0)]"
  using lista_horarios_ok [OF exemplo_lista] exemplo_lista
  by (simp add: exemplo_medicos)

section \<open>What the parsers accept\<close>

lemma digito_nao_sep: "digito c \<Longrightarrow> c \<noteq> CHR ''-'' \<and> c \<noteq> CHR '':'' \<and> c \<noteq> CHR '' ''"
  by (auto simp: digito_def classe_def)

lemma classe_digito:
  assumes "classe cs c" "set cs \<subseteq> set ''0123456789''"
  shows "digito c"
  using assms(2) assms(1) unfolding digito_def classe_def by (rule subsetD)

lemma ler_digitos_append:
  assumes "list_all digito xs" "r = [] \<or> \<not> digito (hd r)"
  shows "ler_digitos (xs @ r) = (xs, r)"
proof -
  from assms(1) have a: "\<forall>x\<in>set xs. digito x" by (simp add: list_all_iff)
  from assms(2) have "takeWhile digito r = []" "dropWhile digito r = r"
    by (cases r; simp)+
  with a show ?thesis
    by (simp add: ler_digitos_def takeWhile_append2 dropWhile_append2)
qed

lemma dois_mem:
  "(v, r) \<in> set (dois p q s) \<Longrightarrow> \<exists>a b. s = [a, b] @ r \<and> p a \<and> q b \<and> v = int_of [a, b]"
  by (auto simp: dois_def split: list.splits if_splits)

lemma um_mem: "(v, r) \<in> set (um p s) \<Longrightarrow> \<exists>a. s = [a] @ r \<and> p a \<and> v = int_of [a]"
  by (auto simp: um_def split: list.splits if_splits)

lemma lit_mem: "r \<in> set (lit c s) \<Longrightarrow> s = c # r"
  by (auto simp: lit_def split: list.splits if_splits)

lemma dois_digitos:
  assumes "(v, r) \<in> set (dois (classe cs) (classe ds) s)"
    "set cs \<subseteq> set ''0123456789''" "set ds \<subseteq> set ''0123456789''"
  shows "\<exists>xs. s = xs @ r \<and> xs \<noteq> [] \<and> length xs \<le> 2 \<and> list_all digito xs \<and> v = int_of xs"
proof -
  from dois_mem [OF assms(1)] obtain a b
    where "s = [a, b] @ r" "classe cs a" "classe ds b" "v = int_of [a, b]" by blast
  with assms(2,3) show ?thesis
    by (intro exI [of _ "[a, b]"]) (simp add: classe_digito)
qed

lemma dois_digitos':
  assumes "(v, r) \<in> set (dois (classe cs) digito s)" "set cs \<subseteq> set ''0123456789''"
  shows "\<exists>xs. s = xs @ r \<and> xs \<noteq> [] \<and> length xs \<le> 2 \<and> list_all digito xs \<and> v = int_of xs"
  using dois_digitos [of v r cs "''0123456789''" s] assms by (simp add: digito_def)

lemma um_digitos:
  assumes "(v, r) \<in> set (um (classe cs) s)" "set cs \<subseteq> set ''0123456789''"
  shows "\<exists>xs. s = xs @ r \<and> xs \<noteq> [] \<and> length xs \<le> 2 \<and> list_all digito xs \<and> v = int_of xs"
proof -
  from um_mem [OF assms(1)] obtain a where "s = [a] @ r" "classe cs a" "v = int_of [a]" by blast
  with assms(2) show ?thesis
    by (intro exI [of _ "[a]"]) (simp add: classe_digito)
qed

lemma um_digitos':
  assumes "(v, r) \<in> set (um digito s)"
  shows "\<exists>xs. s = xs @ r \<and> xs \<noteq> [] \<and> length xs \<le> 2 \<and> list_all digito xs \<and> v = int_of xs"
  using um_digitos [of v r "''0123456789''" s] assms by (simp add: digito_def)

lemma re_m_mem:
  assumes "(v, r) \<in> set (re_m s)"
  shows "\<exists>xs. s = xs @ r \<and> xs \<noteq> [] \<and> length xs \<le> 2 \<and> list_all digito xs \<and> v = int_of xs"
proof -
  from assms consider
"(v, r) \<in> set (dois (classe ''1'') (classe ''012'') s)"
    | "(v, r) \<in> set (dois (classe ''0'') (classe ''123456789'') s)"
    | "(v, r) \<in> set (um (classe ''123456789'') s)"
    unfolding re_m_def by auto
  then show ?thesis
  proof cases
    case 1
    then show ?thesis by (rule dois_digitos) simp_all
  next
    case 2
    then show ?thesis by (rule dois_digitos) simp_all
  next
    case 3
    then show ?thesis by (rule um_digitos) simp_all
  qed
qed

lemma re_H_mem:
  assumes "(v, r) \<in> set (re_H s)"
  shows "\<exists>xs. s = xs @ r \<and> xs \<noteq> [] \<and> length xs \<le> 2 \<and> list_all digito xs \<and> v = int_of xs"
proof -
  from assms consider
"(v, r) \<in> set (dois (classe ''2'') (classe ''0123'') s)"
    | "(v, r) \<in> set (dois (classe ''01'') digito s)"
    | "(v, r) \<in> set (um digito s)"
    unfolding re_H_def by auto
  then show ?thesis
  proof cases
    case 1
    then show ?thesis by (rule dois_digitos) simp_all
  next
    case 2
    then show ?thesis by (rule dois_digitos') simp_all
  next
    case 3
    then show ?thesis by (rule um_digitos')
  qed
qed

lemma re_M_mem:
  assumes "(v, r) \<in> set (re_M s)"
  shows "\<exists>xs. s = xs @ r \<and> xs \<noteq> [] \<and> length xs \<le> 2 \<and> list_all digito xs \<and> v = int_of xs"
proof -
  from assms consider
"(v, r) \<in> set (dois (classe ''012345'') digito s)"
    | "(v, r) \<in> set (um digito s)"
    unfolding re_M_def by auto
  then show ?thesis
  proof cases
    case 1
    then show ?thesis by (rule dois_digitos') simp_all
  next
    case 2
    then show ?thesis by (rule um_digitos')
  qed
qed

lemma re_S_mem:
  assumes "(v, r) \<in> set (re_S s)"
  shows "\<exists>xs. s = xs @ r \<and> xs \<noteq> [] \<and> length xs \<le> 2 \<and> list_all digito xs \<and> v = int_of xs"
proof -
  from assms consider
"(v, r) \<in> set (dois (classe ''6'') (classe ''01'') s)"
    | "(v, r) \<in> set (dois (classe ''012345'') digito s)"
    | "(v, r) \<in> set (um digito s)"
    unfolding re_S_def by auto
  then show ?thesis
  proof cases
    case 1
    then show ?thesis by (rule dois_digitos) simp_all
  next
    case 2
    then show ?thesis by (rule dois_digitos') simp_all
  next
    case 3
    then show ?thesis by (rule um_digitos')
  qed
qed

lemma re_d_mem:
  assumes "(v, r) \<in> set (re_d s)"
  shows "(\<exists>xs. s = xs @ r \<and> xs \<noteq> [] \<and> length xs \<le> 2 \<and> list_all digito xs \<and> v = int_of xs)
         \<or> (\<exists>c. s = CHR '' '' # c # r)"
proof -
  from assms consider
      "(v, r) \<in> set (dois (classe ''3'') (classe ''01'') s)"
    | "(v, r) \<in> set (dois (classe ''12'') digito s)"
    | "(v, r) \<in> set (dois (classe ''0'') (classe ''123456789'') s)"
    | "(v, r) \<in> set (um (classe ''123456789'') s)"
    | "(v, r) \<in> set (dois (classe '' '') (classe ''123456789'') s)"
    unfolding re_d_def by auto
  then show ?thesis
  proof cases
    case 1
    then have "\<exists>xs. s = xs @ r \<and> xs \<noteq> [] \<and> length xs \<le> 2 \<and> list_all digito xs \<and> v = int_of xs" by (rule dois_digitos) simp_all
    then show ?thesis ..
  next
    case 2
    then have "\<exists>xs. s = xs @ r \<and> xs \<noteq> [] \<and> length xs \<le> 2 \<and> list_all digito xs \<and> v = int_of xs" by (rule dois_digitos') simp_all
    then show ?thesis ..
  next
    case 3
    then have "\<exists>xs. s = xs @ r \<and> xs \<noteq> [] \<and> length xs \<le> 2 \<and> list_all digito xs \<and> v = int_of xs" by (rule dois_digitos) simp_all
    then show ?thesis ..
  next
    case 4
    then have "\<exists>xs. s = xs @ r \<and> xs \<noteq> [] \<and> length xs \<le> 2 \<and> list_all digito xs \<and> v = int_of xs" by (rule um_digitos) simp_all
    then show ?thesis ..
  next
    case 5
    from dois_mem [OF this] obtain a b where "s = [a, b] @ r" "classe '' '' a" by blast
    then have "s = CHR '' '' # b # r" by (simp add: classe_def)
    then show ?thesis by blast
  qed
qed

lemma re_Y_mem:
  assumes "(v, r) \<in> set (re_Y s)"
  shows "\<exists>xs. s = xs @ r \<and> length xs = 4 \<and> list_all digito xs \<and> v = int_of xs"
proof -
  from assms obtain a b c d where "s = [a, b, c, d] @ r" "digito a" "digito b" "digito c"
    "digito d" "v = int_of [a, b, c, d]"
    by (auto simp: re_Y_def split: list.splits if_splits)
  then show ?thesis
    by (intro exI [of _ "[a, b, c, d]"]) simp
qed

lemma casar_data_mem:
  assumes "(y, m, d, r) \<in> set (casar_data s)"
  shows "\<exists>ys ms rd. s = ys @ CHR ''-'' # ms @ CHR ''-'' # rd
           \<and> length ys = 4 \<and> list_all digito ys \<and> y = int_of ys
           \<and> ms \<noteq> [] \<and> length ms \<le> 2 \<and> list_all digito ms \<and> m = int_of ms
           \<and> (d, r) \<in> set (re_d rd)"
proof -
  from assms obtain r1 r2 r3 r4
    where y: "(y, r1) \<in> set (re_Y s)" and l1: "r2 \<in> set (lit CHR ''-'' r1)"
      and m: "(m, r3) \<in> set (re_m r2)" and l2: "r4 \<in> set (lit CHR ''-'' r3)"
      and d: "(d, r) \<in> set (re_d r4)"
    unfolding casar_data_def by auto
  from re_Y_mem [OF y] obtain ys
    where ys: "s = ys @ r1" "length ys = 4" "list_all digito ys" "y = int_of ys" by blast
  from re_m_mem [OF m] obtain ms
    where ms: "r2 = ms @ r3" "ms \<noteq> []" "length ms \<le> 2" "list_all digito ms" "m = int_of ms"
    by blast
  from lit_mem [OF l1] lit_mem [OF l2] have "r1 = CHR ''-'' # r2" "r3 = CHR ''-'' # r4" .
  with ys ms d show ?thesis by blast
qed

lemma casar_hora_mem:
  assumes "(h, m, sec, r) \<in> set (casar_hora s)"
  shows "\<exists>hs ms ss. s = hs @ CHR '':'' # ms @ CHR '':'' # ss @ r
           \<and> hs \<noteq> [] \<and> list_all digito hs \<and> h = int_of hs
           \<and> ms \<noteq> [] \<and> list_all digito ms \<and> m = int_of ms
           \<and> ss \<noteq> [] \<and> list_all digito ss \<and> sec = int_of ss"
proof -
  from assms obtain r1 r2 r3 r4
    where h: "(h, r1) \<in> set (re_H s)" and l1: "r2 \<in> set (lit CHR '':'' r1)"
      and m: "(m, r3) \<in> set (re_M r2)" and l2: "r4 \<in> set (lit CHR '':'' r3)"
      and sc: "(sec, r) \<in> set (re_S r4)"
    unfolding casar_hora_def by auto
  from re_H_mem [OF h] obtain hs
    where hs: "s = hs @ r1" "hs \<noteq> []" "list_all digito hs" "h = int_of hs" by blast
  from re_M_mem [OF m] obtain ms
    where ms: "r2 = ms @ r3" "ms \<noteq> []" "list_all digito ms" "m = int_of ms" by blast
  from re_S_mem [OF sc] obtain ss
    where ss: "r4 = ss @ r" "ss \<noteq> []" "list_all digito ss" "sec = int_of ss" by blast
  from lit_mem [OF l1] lit_mem [OF l2] have "r1 = CHR '':'' # r2" "r3 = CHR '':'' # r4" .
  with hs ms ss show ?thesis by blast
qed

lemma strptime_data_Inr:
  assumes "strptime s FormatoData = Inr dd"
  shows "\<exists>y m d. (y, m, d, []) \<in> set (casar_data s)
           \<and> 1 \<le> y \<and> 1 \<le> m \<and> m \<le> 12 \<and> 1 \<le> d \<and> d \<le> days_in_month y m
           \<and> dd = combine (ymd2ord y m d) 0"
proof (cases "casar_data s")
  case Nil
  with assms show ?thesis by (simp add: strptime.simps)
next
  case (Cons x xs)
  obtain y m d r where x: "x = (y, m, d, r)" by (cases x)
  from assms Cons x have "r = []" "1 \<le> y" "1 \<le> m" "m \<le> 12" "1 \<le> d" "d \<le> days_in_month y m"
    "dd = combine (ymd2ord y m d) 0"
    by (auto simp: strptime.simps split: if_splits)
  moreover from Cons x have "(y, m, d, r) \<in> set (casar_data s)" by simp
  ultimately show ?thesis by blast
qed

lemma strptime_hora_Inr:
  assumes "strptime s FormatoHora = Inr hh"
  shows "\<exists>h m sec. (h, m, sec, []) \<in> set (casar_hora s)
           \<and> h \<le> 23 \<and> m \<le> 59 \<and> sec \<le> 59
           \<and> hh = combine (ymd2ord 1900 1 1) (hms h m sec)"
proof (cases "casar_hora s")
  case Nil
  with assms show ?thesis by (simp add: strptime.simps)
next
  case (Cons x xs)
  obtain h m sec r where x: "x = (h, m, sec, r)" by (cases x)
  from assms Cons x have "r = []" "h \<le> 23" "m \<le> 59" "sec \<le> 59"
    "hh = combine (ymd2ord 1900 1 1) (hms h m sec)"
    by (auto simp: strptime.simps split: if_splits)
  moreover from Cons x have "(h, m, sec, r) \<in> set (casar_hora s)" by simp
  ultimately show ?thesis by blast
qed

lemma sem_branco: "list_all digito xs \<Longrightarrow> CHR '' '' \<notin> set xs"
  using digito_nao_sep by (auto simp: list_all_iff)

lemma ler_digitos_sep:
  assumes "list_all digito xs" "\<not> digito c"
  shows "ler_digitos (xs @ c # r) = (xs, c # r)"
  by (rule ler_digitos_append [OF assms(1)]) (simp add: assms(2))

lemma nao_digito: "\<not> digito CHR ''-''" "\<not> digito CHR '':''" "\<not> digito CHR '' ''"
  using digito_nao_sep by blast+

lemma hms_lt_dia:
  assumes "h \<le> 23" "m \<le> 59" "s \<le> 59"
  shows "hms h m s < US_PER_DAY"
  using assms by (simp add: hms_def US_PER_DAY_def)

lemma apos_Cons: "apos c (c # r) = Some r"
  by (simp add: apos_def)

lemma pg_time_in_strptime:
  assumes "strptime s FormatoHora = Inr hh"
  shows "pg_time_in s = Inr (time_of hh)"
proof -
  from strptime_hora_Inr [OF assms] obtain h m sec
    where c: "(h, m, sec, []) \<in> set (casar_hora s)" and v: "h \<le> 23" "m \<le> 59" "sec \<le> 59"
      and hh: "hh = combine (ymd2ord 1900 1 1) (hms h m sec)"
    by blast
  from casar_hora_mem [OF c] obtain hs ms ss
    where s: "s = hs @ CHR '':'' # ms @ CHR '':'' # ss"
      and f: "hs \<noteq> []" "list_all digito hs" "h = int_of hs"
        "ms \<noteq> []" "list_all digito ms" "m = int_of ms"
        "ss \<noteq> []" "list_all digito ss" "sec = int_of ss"
    by auto
  have 1: "ler_digitos s = (hs, CHR '':'' # ms @ CHR '':'' # ss)"
    unfolding s by (rule ler_digitos_sep [OF f(2) nao_digito(2)])
  have 2: "ler_digitos (ms @ CHR '':'' # ss) = (ms, CHR '':'' # ss)"
    by (rule ler_digitos_sep [OF f(5) nao_digito(2)])
  have 3: "ler_digitos ss = (ss, [])"
    using ler_digitos_append [OF f(8), of "[]"] by simp
  have "time_of hh = hms h m sec"
    unfolding hh by (rule time_of_combine [OF hms_lt_dia [OF v]])
  then show ?thesis
    using f v by (simp add: pg_time_in_def 1 2 3 apos_Cons)
qed

lemma pg_date_in_strptime:
  assumes "strptime s FormatoData = Inr dd"
  shows "pg_date_in s = (if CHR '' '' \<in> set s then Inl DataError else Inr (date_of dd))"
proof -
  from strptime_data_Inr [OF assms] obtain y m d
    where c: "(y, m, d, []) \<in> set (casar_data s)"
      and v: "1 \<le> y" "1 \<le> m" "m \<le> 12" "1 \<le> d" "d \<le> days_in_month y m"
      and dd: "dd = combine (ymd2ord y m d) 0"
    by blast
  from casar_data_mem [OF c] obtain ys ms rd
    where s: "s = ys @ CHR ''-'' # ms @ CHR ''-'' # rd"
      and f: "length ys = 4" "list_all digito ys" "y = int_of ys"
        "ms \<noteq> []" "length ms \<le> 2" "list_all digito ms" "m = int_of ms"
      and rd: "(d, []) \<in> set (re_d rd)"
    by blast
  have 1: "ler_digitos s = (ys, CHR ''-'' # ms @ CHR ''-'' # rd)"
    unfolding s by (rule ler_digitos_sep [OF f(2) nao_digito(1)])
  have 2: "ler_digitos (ms @ CHR ''-'' # rd) = (ms, CHR ''-'' # rd)"
    by (rule ler_digitos_sep [OF f(6) nao_digito(1)])
  have dt: "date_of dd = ymd2ord (int_of ys) (int_of ms) d"
    unfolding dd f(3) f(7) using US_PER_DAY_pos by (simp add: date_of_combine)
  note v' = v [unfolded f(3) f(7)]
  have pg: "pg_date_in s =
     (let (ds, r5) = ler_digitos rd in
      if r5 = [] \<and> ds \<noteq> [] \<and> length ds \<le> 2
         \<and> 1 \<le> int_of ds \<and> int_of ds \<le> days_in_month (int_of ys) (int_of ms)
      then Inr (ymd2ord (int_of ys) (int_of ms) (int_of ds)) else Inl DataError)"
    using f(1,2,4,5,6) v' by (simp add: pg_date_in_def 1 2 apos_Cons)
  from re_d_mem [OF rd]
  consider (digitos) "rd \<noteq> []" "length rd \<le> 2" "list_all digito rd" "d = int_of rd"
    | (branco) c where "rd = [CHR '' '', c]"
    by auto
  then show ?thesis
  proof cases
    case digitos
    have 3: "ler_digitos rd = (rd, [])"
      using ler_digitos_append [OF digitos(3), of "[]"] by simp
    have "CHR '' '' \<notin> set s"
      unfolding s using sem_branco [OF f(2)] sem_branco [OF f(6)] sem_branco [OF digitos(3)]
      by simp
    then show ?thesis
      using v' digitos by (simp add: pg 3 dt)
  next
    case branco
    have 3: "ler_digitos rd = ([], rd)"
      unfolding branco using nao_digito(3) by (simp add: ler_digitos_def)
    have "CHR '' '' \<in> set s"
      unfolding s branco by simp
    then show ?thesis
      by (simp add: pg 3)
  qed
qed

section \<open>The claims about input validation\<close>

lemmas parse_defs = casar_data_def casar_hora_def re_Y_def re_m_def re_d_def re_H_def re_M_def
  re_S_def dois_def um_def lit_def classe_def digito_def int_of_def valor_digito_def
  strptime.simps

lemmas cal_defs = days_in_month_def is_leap_def ymd2ord_def days_before_month_def
  days_before_year_def

lemma verificar_formato_data_iff:
  "verificar_formato_data s fmt \<longleftrightarrow> (\<exists>x. strptime s fmt = Inr x)"
  by (auto simp: verificar_formato_data_def split: sum.splits erro.splits)

lemma validar_marca_regras:
  "validar_marca now paciente medico data hora =
   Inr (primeiro_erro (regras now paciente medico data hora))"
proof (cases "regra_paciente paciente")
  case (Some e)
  then show ?thesis
    by (auto simp: validar_marca_def regras_def regra_paciente_def vazio_def texto_def isdigit_def
             split: option.splits if_splits)
next
  case p: None
  then have p': "\<not> vazio paciente" "length (texto paciente) = 11" "isdigit (texto paciente)"
    by (auto simp: regra_paciente_def vazio_def texto_def isdigit_def
             split: option.splits if_splits)
  show ?thesis
  proof (cases "regra_medico medico")
    case (Some e)
    then show ?thesis
      using p p'
      by (auto simp: validar_marca_def regras_def regra_medico_def vazio_def texto_def isdigit_def
               split: option.splits if_splits)
  next
    case m: None
    then have m': "\<not> vazio medico" "length (texto medico) = 9" "isdigit (texto medico)"
      by (auto simp: regra_medico_def vazio_def texto_def isdigit_def
               split: option.splits if_splits)
    show ?thesis
    proof (cases "regra_data data")
      case (Some e)
      then show ?thesis
        using p p' m m'
        by (auto simp: validar_marca_def regras_def regra_data_def vazio_def texto_def
                 verificar_formato_data_iff split: option.splits if_splits sum.splits)
    next
      case d: None
      then obtain dd where d': "\<not> vazio data" "strptime (texto data) FormatoData = Inr dd"
        by (auto simp: regra_data_def vazio_def texto_def split: option.splits if_splits sum.splits)
      show ?thesis
      proof (cases "regra_hora hora")
        case (Some e)
        then show ?thesis
          using p p' m m' d d'
          by (auto simp: validar_marca_def regras_def regra_hora_def vazio_def texto_def
                   verificar_formato_data_iff split: option.splits if_splits sum.splits)
      next
        case h: None
        then obtain hh where h': "\<not> vazio hora" "strptime (texto hora) FormatoHora = Inr hh"
          by (auto simp: regra_hora_def vazio_def texto_def
                   split: option.splits if_splits sum.splits)
        show ?thesis
          using p p' m m' d d' h h'
          by (simp add: validar_marca_def regras_def regra_passado_def regra_janela_def
                instante_def na_janela_def verificar_formato_data_iff Let_def)
      qed
    qed
  qed
qed

lemma validar_cancela_marca:
  "validar_cancela now paciente medico data hora = validar_marca now paciente medico data hora"
  by (simp add: validar_marca_def validar_cancela_def)


lemma strptime_1230: "strptime ''12:30:00'' FormatoHora = Inr (combine 693596 (hms 12 30 0))"
  by (simp add: parse_defs cal_defs)

lemma strptime_1315: "strptime ''13:15:00'' FormatoHora = Inr (combine 693596 (hms 13 15 0))"
  by (simp add: parse_defs cal_defs)

lemma regra_paciente_11: "regra_paciente (Some ''12345678901'') = None"
  by (simp add: regra_paciente_def digito_py_def digito_def classe_def)



lemma strptime_20240108: "strptime ''2024-01-08'' FormatoData = Inr (combine 738893 0)"
  by (simp add: parse_defs cal_defs)

lemma strptime_0900: "strptime ''09:00:00'' FormatoHora = Inr (combine 693596 (hms 9 0 0))"
  by (simp add: parse_defs cal_defs)

lemma regra_medico_9: "regra_medico (Some ''123456789'') = None"
  by (simp add: regra_medico_def digito_py_def digito_def classe_def)

lemma regra_data_20240108: "regra_data (Some ''2024-01-08'') = None"
  by (simp add: regra_data_def strptime_20240108)

lemma instante_exemplo:
  "instante (Some ''2024-01-08'') (Some ''09:00:00'') = Some (combine 738893 (hms 9 0 0))"
  "instante (Some ''2024-01-08'') (Some ''12:30:00'') = Some (combine 738893 (hms 12 30 0))"
  "instante (Some ''2024-01-08'') (Some ''13:15:00'') = Some (combine 738893 (hms 13 15 0))"
  by (simp_all add: instante_def texto_def strptime_20240108 strptime_0900 strptime_1230
        strptime_1315 tempo_defs)

lemma regra_passado_exemplo:
  "regra_passado now_exemplo (Some ''2024-01-08'') (Some ''09:00:00'') = None"
  "regra_passado now_exemplo (Some ''2024-01-08'') (Some ''12:30:00'') = None"
  "regra_passado now_exemplo (Some ''2024-01-08'') (Some ''13:15:00'') = None"
  by (simp_all add: regra_passado_def instante_exemplo now_exemplo_def combine_def hms_def)


lemma regras_exemplo_0900:
  "regra_hora (Some ''09:00:00'') = None"
  "regra_janela (Some ''2024-01-08'') (Some ''09:00:00'') = None"
  by (simp_all add: regra_hora_def strptime_0900 regra_janela_def instante_exemplo
        na_janela_def tempo_defs)



lemma time_of_time_of: "time_of (combine d (time_of x)) = time_of x"
  by (simp add: time_of_def combine_def)

lemma validar_marca_janela:
  assumes "regra_paciente paciente = None" "regra_medico medico = None"
    "regra_data (Some ds) = None" "regra_hora (Some hs) = None"
    "regra_passado now (Some ds) (Some hs) = None"
  shows "\<exists>hh. strptime hs FormatoHora = Inr hh
          \<and> validar_marca now paciente medico (Some ds) (Some hs) =
              Inr (if na_janela (time_of hh) then None else Some HorarioForaDoExpediente)"
proof -
  from assms(3) obtain dd where dd: "strptime ds FormatoData = Inr dd"
    by (auto simp: regra_data_def split: if_splits sum.splits)
  from assms(4) obtain hh where hh: "strptime hs FormatoHora = Inr hh"
    by (auto simp: regra_hora_def split: if_splits sum.splits)
  have "regra_janela (Some ds) (Some hs) =
        (if na_janela (time_of hh) then None else Some HorarioForaDoExpediente)"
    by (simp add: regra_janela_def instante_def texto_def dd hh time_of_time_of)
  with assms hh show ?thesis
    by (simp add: validar_marca_regras regras_def)
qed

lemma na_janela_exemplos: "na_janela (hms 12 30 0)" "\<not> na_janela (hms 13 15 0)"
  "na_janela (hms 9 0 0)"
  by (simp_all add: na_janela_def hms_def)

lemma time_of_hms_exemplos:
  "time_of (combine 693596 (hms 12 30 0)) = hms 12 30 0"
  "time_of (combine 693596 (hms 13 15 0)) = hms 13 15 0"
  "time_of (combine 693596 (hms 9 0 0)) = hms 9 0 0"
  by (simp_all add: tempo_defs)

text \<open>
  Claim C6: an input that passes rules 1 to 5 passes validation if and only if the time of
  day that its time text denotes lies in [08:00:00, 13:00:00) or in [14:00:00, 19:00:00),
  and is otherwise rejected by the hour-window rule; on every date that reaches rule 6,
  12:30:00 passes and 13:15:00 is rejected.
\<close>

theorem janela_horaria:
  "(regra_paciente paciente = None \<and> regra_medico medico = None \<and> regra_data (Some ds) = None
      \<and> regra_hora (Some hs) = None \<and> regra_passado now (Some ds) (Some hs) = None \<longrightarrow>
      (\<exists>hh. strptime hs FormatoHora = Inr hh
         \<and> (validar_marca now paciente medico (Some ds) (Some hs) = Inr None
              \<longleftrightarrow> na_janela (time_of hh))
         \<and> (validar_marca now paciente medico (Some ds) (Some hs) = Inr (Some HorarioForaDoExpediente)
              \<longleftrightarrow> \<not> na_janela (time_of hh))))
   \<and> (regra_paciente paciente = None \<and> regra_medico medico = None \<and> regra_data (Some ds) = None
      \<and> regra_passado now (Some ds) (Some ''12:30:00'') = None \<longrightarrow>
      validar_marca now paciente medico (Some ds) (Some ''12:30:00'') = Inr None)
   \<and> (regra_paciente paciente = None \<and> regra_medico medico = None \<and> regra_data (Some ds) = None
      \<and> regra_passado now (Some ds) (Some ''13:15:00'') = None \<longrightarrow>
      validar_marca now paciente medico (Some ds) (Some ''13:15:00'')
        = Inr (Some HorarioForaDoExpediente))"
proof (intro conjI impI)
  assume "regra_paciente paciente = None \<and> regra_medico medico = None
      \<and> regra_data (Some ds) = None \<and> regra_hora (Some hs) = None
      \<and> regra_passado now (Some ds) (Some hs) = None"
  then obtain hh where "strptime hs FormatoHora = Inr hh"
    "validar_marca now paciente medico (Some ds) (Some hs) =
       Inr (if na_janela (time_of hh) then None else Some HorarioForaDoExpediente)"
    using validar_marca_janela by blast
  then show "\<exists>hh. strptime hs FormatoHora = Inr hh
         \<and> (validar_marca now paciente medico (Some ds) (Some hs) = Inr None
              \<longleftrightarrow> na_janela (time_of hh))
         \<and> (validar_marca now paciente medico (Some ds) (Some hs) = Inr (Some HorarioForaDoExpediente)
              \<longleftrightarrow> \<not> na_janela (time_of hh))"
    by auto
next
  assume a: "regra_paciente paciente = None \<and> regra_medico medico = None
      \<and> regra_data (Some ds) = None \<and> regra_passado now (Some ds) (Some ''12:30:00'') = None"
  have "regra_hora (Some ''12:30:00'') = None"
    by (simp add: regra_hora_def strptime_1230)
  with a validar_marca_janela [of paciente medico ds "''12:30:00''" now]
  show "validar_marca now paciente medico (Some ds) (Some ''12:30:00'') = Inr None"
    by (auto simp: strptime_1230 time_of_hms_exemplos na_janela_exemplos)
next
  assume a: "regra_paciente paciente = None \<and> regra_medico medico = None
      \<and> regra_data (Some ds) = None \<and> regra_passado now (Some ds) (Some ''13:15:00'') = None"
  have "regra_hora (Some ''13:15:00'') = None"
    by (simp add: regra_hora_def strptime_1315)
  with a validar_marca_janela [of paciente medico ds "''13:15:00''" now]
  show "validar_marca now paciente medico (Some ds) (Some ''13:15:00'')
        = Inr (Some HorarioForaDoExpediente)"
    by (auto simp: strptime_1315 time_of_hms_exemplos na_janela_exemplos)
qed

theorem janela_horaria_witness:
  "(\<exists>hh. strptime ''09:00:00'' FormatoHora = Inr hh
         \<and> (validar_marca now_exemplo (Some ''12345678901'') (Some ''123456789'')
               (Some ''2024-01-08'') (Some ''09:00:00'') = Inr None
              \<longleftrightarrow> na_janela (time_of hh)))
   \<and> validar_marca now_exemplo (Some ''12345678901'') (Some ''123456789'')
        (Some ''2024-01-08'') (Some ''12:30:00'') = Inr None
   \<and> validar_marca now_exemplo (Some ''12345678901'') (Some ''123456789'')
        (Some ''2024-01-08'') (Some ''13:15:00'') = Inr (Some HorarioForaDoExpediente)"
proof -
  have h: "regra_hora (Some ''09:00:00'') = None"
    by (simp add: regra_hora_def strptime_0900)
  note p = regra_paciente_11 regra_medico_9 regra_data_20240108
  note t = janela_horaria [of "Some ''12345678901''" "Some ''123456789''" "''2024-01-08''"
        "''09:00:00''" now_exemplo]
  from t p h regra_passado_exemplo(1)
  have "\<exists>hh. strptime ''09:00:00'' FormatoHora = Inr hh
         \<and> (validar_marca now_exemplo (Some ''12345678901'') (Some ''123456789'')
               (Some ''2024-01-08'') (Some ''09:00:00'') = Inr None
              \<longleftrightarrow> na_janela (time_of hh))"
    by blast
  moreover from t p regra_passado_exemplo(2)
  have "validar_marca now_exemplo (Some ''12345678901'') (Some ''123456789'')
        (Some ''2024-01-08'') (Some ''12:30:00'') = Inr None"
    by blast
  moreover from t p regra_passado_exemplo(3)
  have "validar_marca now_exemplo (Some ''12345678901'') (Some ''123456789'')
        (Some ''2024-01-08'') (Some ''13:15:00'') = Inr (Some HorarioForaDoExpediente)"
    by blast
  ultimately show ?thesis by blast
qed

text \<open>
  Claim C8: the validation of a booking and the validation of a cancellation are the same
  function of the clock and of the four raw parameters: same verdict, same rule order, same
  message.
\<close>

theorem validar_marca_igual_cancela:
  "validar_marca now paciente medico data hora = validar_cancela now paciente medico data hora"
  by (simp add: validar_cancela_marca)

theorem validar_marca_igual_cancela_witness:
  "validar_cancela now_exemplo (Some ''12345678901'') (Some ''123456789'')
     (Some ''2024-01-08'') (Some ''13:15:00'') = Inr (Some HorarioForaDoExpediente)
   \<and> validar_cancela (combine 738894 0) (Some ''12345678901'') (Some ''123456789'')
       (Some ''2024-01-08'') (Some ''09:00:00'')
       = Inr (Some (HorarioNoPassado ''09:00:00'' ''2024-01-08''))"
proof -
  have "validar_marca now_exemplo (Some ''12345678901'') (Some ''123456789'')
     (Some ''2024-01-08'') (Some ''13:15:00'') = Inr (Some HorarioForaDoExpediente)"
    by (simp add: validar_marca_regras regras_def regra_paciente_11 regra_medico_9
          regra_data_20240108 regra_hora_def strptime_1315 regra_passado_exemplo
          regra_janela_def instante_exemplo na_janela_def tempo_defs)
  moreover have "validar_marca (combine 738894 0) (Some ''12345678901'') (Some ''123456789'')
       (Some ''2024-01-08'') (Some ''09:00:00'')
       = Inr (Some (HorarioNoPassado ''09:00:00'' ''2024-01-08''))"
    by (simp add: validar_marca_regras regras_def regra_paciente_11 regra_medico_9
          regra_data_20240108 regra_hora_def strptime_0900 regra_passado_def
          instante_exemplo texto_def combine_def hms_def US_PER_DAY_def)
  ultimately show ?thesis
    using validar_marca_igual_cancela [of now_exemplo "Some ''12345678901''" "Some ''123456789''"
        "Some ''2024-01-08''" "Some ''13:15:00''"]
      validar_marca_igual_cancela [of "combine 738894 0" "Some ''12345678901''"
        "Some ''123456789''" "Some ''2024-01-08''" "Some ''09:00:00''"]
    by simp
qed

section \<open>The claims about booking and cancelling\<close>

lemma count_where_0: "count_where p xs = 0 \<longleftrightarrow> \<not> (\<exists>x\<in>set xs. p x)"
  by (simp add: count_where_def filter_empty_conv)

lemma count_where_pos: "0 < count_where p xs \<longleftrightarrow> (\<exists>x\<in>set xs. p x)"
  using count_where_0 [of p xs] by (cases "count_where p xs") simp_all

lemma filter_find: "filter p xs = r # rs \<Longrightarrow> find p xs = Some r"
  by (induction xs) (auto split: if_splits)

lemma executar_nenhuma: "executar (\<lambda>_. None) st v = Inr v"
  by (simp add: executar_def)

lemma entao_Inr: "entao (Inr v) f = f v"
  by (simp add: entao_def)

lemma entao_Inl: "entao (Inl e) f = Inl e"
  by (simp add: entao_def)

lemma executar_com_nenhuma: "executar_com (\<lambda>_. None) st r = r"
  by (simp add: executar_com_def executar_nenhuma entao_Inr)

lemma com_data_hora_Inr:
  "pg_date_in data = Inr d \<Longrightarrow> pg_time_in hora = Inr h \<Longrightarrow> com_data_hora data hora f = Inr (f d h)"
  by (simp add: com_data_hora_def entao_Inr)

lemma com_data_hora_Inl: "pg_date_in data = Inl e \<Longrightarrow> com_data_hora data hora f = Inl e"
  by (simp add: com_data_hora_def entao_Inl)

lemma marca_transacao_spec:
  assumes p: "strptime data FormatoData = Inr dd"
    and pd: "pg_date_in data = Inr (date_of dd)" and ph: "pg_time_in hora = Inr h"
  shows "marca_transacao (\<lambda>_. None) bd clin pac med data hora =
         Inr (marca_spec bd clin pac med data hora (date_of dd) h)"
proof -
  define d where "d = date_of dd"
  define c1 where "c1 \<longleftrightarrow> (\<exists>c \<in> set (tb_clinica bd). cl_nome c = clin)"
  define c2 where "c2 \<longleftrightarrow> (\<exists>p \<in> set (tb_paciente bd). p_ssn p = pac)"
  define c3 where "c3 \<longleftrightarrow> (\<exists>m \<in> set (tb_medico bd). m_nif m = med)"
  define c4 where "c4 \<longleftrightarrow> (\<exists>t \<in> set (tb_trabalha bd).
          t_nif t = med \<and> t_nome t = clin \<and> t_dia_da_semana t = int (weekday d))"
  define c5 where "c5 \<longleftrightarrow>
     (\<exists>c \<in> set (tb_consulta bd). c_nif c = med \<and> c_data c = d \<and> c_hora c = h)"
  define c6 where "c6 \<longleftrightarrow>
     (\<exists>c \<in> set (tb_consulta bd). c_ssn c = pac \<and> c_data c = d \<and> c_hora c = h)"
  define c7 where "c7 \<longleftrightarrow> (\<exists>p. linha_paciente bd pac = Some p \<and> p_nif p = med)"
  have cdh: "com_data_hora data hora f = Inr (f d h)" for f :: "date \<Rightarrow> time \<Rightarrow> 'b"
    unfolding d_def by (rule com_data_hora_Inr [OF pd ph])
  have linhas: "c2 \<Longrightarrow> \<exists>linha resto.
      filter (\<lambda>p. p_ssn p = pac) (tb_paciente bd) = linha # resto \<and> (c7 \<longleftrightarrow> p_nif linha = med)"
  proof -
    assume c2
    then obtain linha resto
      where fl: "filter (\<lambda>p. p_ssn p = pac) (tb_paciente bd) = linha # resto"
      unfolding c2_def
      by (cases "filter (\<lambda>p. p_ssn p = pac) (tb_paciente bd)") (auto simp: filter_empty_conv)
    then have "linha_paciente bd pac = Some linha"
      unfolding linha_paciente_def by (rule filter_find)
    with fl show ?thesis by (auto simp: c7_def)
  qed
  have lhs: "marca_transacao (\<lambda>_. None) bd clin pac med data hora =
     (if c1 then
        if c2 then
          if c3 then
            if c4 then
              if \<not> c5 then
                if \<not> c6 then
                  (case filter (\<lambda>p. p_ssn p = pac) (tb_paciente bd) of
                     [] \<Rightarrow> Inl AttributeError
                   | linha # _ \<Rightarrow>
                       if p_nif linha \<noteq> med then
                         Inr ((Sucesso (MarcouConsulta pac med clin hora data), 200),
                              bd\<lparr>tb_consulta := tb_consulta bd @
                                   [\<lparr>c_ssn = pac, c_nif = med, c_nome = clin,
                                     c_data = d, c_hora = h\<rparr>]\<rparr>)
                       else Inr ((Erro MedicoProprio, 400), bd))
                else Inr ((Erro (PacienteTemConsulta hora data), 400), bd)
              else Inr ((Erro (MedicoTemConsulta hora data), 400), bd)
            else Inr ((Erro (MedicoNaoTrabalha (lista_dias_da_semana ! weekday d)), 400), bd)
          else Inr ((Erro (MedicoNaoExistente med), 400), bd)
        else Inr ((Erro (PacienteNaoExistente pac), 400), bd)
      else Inr ((Erro (ClinicaNaoExistente clin), 404), bd))"
    unfolding marca_transacao_def executar_nenhuma executar_com_nenhuma p cdh entao_Inr
      count_where_pos Let_def c1_def c2_def c3_def c4_def c5_def c6_def d_def [symmetric] ..
  have rhs: "marca_spec bd clin pac med data hora d h =
     (case primeira_falha
        [(c1, (Erro (ClinicaNaoExistente clin), 404)),
         (c2, (Erro (PacienteNaoExistente pac), 400)),
         (c3, (Erro (MedicoNaoExistente med), 400)),
         (c4, (Erro (MedicoNaoTrabalha (lista_dias_da_semana ! weekday d)), 400)),
         (\<not> c5, (Erro (MedicoTemConsulta hora data), 400)),
         (\<not> c6, (Erro (PacienteTemConsulta hora data), 400)),
         (\<not> c7, (Erro MedicoProprio, 400))] of
        Some r \<Rightarrow> (r, bd)
      | None \<Rightarrow>
          ((Sucesso (MarcouConsulta pac med clin hora data), 200),
           bd\<lparr>tb_consulta := tb_consulta bd @
                [\<lparr>c_ssn = pac, c_nif = med, c_nome = clin, c_data = d, c_hora = h\<rparr>]\<rparr>))"
    unfolding marca_spec_def verificacoes_marca_def
      c1_def c2_def c3_def c4_def c5_def c6_def c7_def ..
  have "marca_transacao (\<lambda>_. None) bd clin pac med data hora =
         Inr (marca_spec bd clin pac med data hora d h)"
  proof (cases c2)
    case False
    then show ?thesis unfolding lhs rhs by simp
  next
    case True
    from linhas [OF this] obtain linha resto
      where "filter (\<lambda>p. p_ssn p = pac) (tb_paciente bd) = linha # resto"
        and "c7 \<longleftrightarrow> p_nif linha = med"
      by blast
    with True show ?thesis unfolding lhs rhs by simp
  qed
  then show ?thesis by (simp add: d_def)
qed

lemma marca_transacao_branco:
  assumes p: "strptime data FormatoData = Inr dd" and pd: "pg_date_in data = Inl DataError"
  shows "marca_transacao (\<lambda>_. None) bd clin pac med data hora =
         (case primeira_falha
                 (take 4 (verificacoes_marca bd clin pac med data hora (date_of dd) h)) of
            Some r \<Rightarrow> Inr (r, bd)
          | None \<Rightarrow> Inl DataError)"
proof -
  define d where "d = date_of dd"
  define c1 where "c1 \<longleftrightarrow> (\<exists>c \<in> set (tb_clinica bd). cl_nome c = clin)"
  define c2 where "c2 \<longleftrightarrow> (\<exists>p \<in> set (tb_paciente bd). p_ssn p = pac)"
  define c3 where "c3 \<longleftrightarrow> (\<exists>m \<in> set (tb_medico bd). m_nif m = med)"
  define c4 where "c4 \<longleftrightarrow> (\<exists>t \<in> set (tb_trabalha bd).
          t_nif t = med \<and> t_nome t = clin \<and> t_dia_da_semana t = int (weekday d))"
  have cdh: "com_data_hora data hora f = Inl DataError" for f :: "date \<Rightarrow> time \<Rightarrow> 'b"
    by (rule com_data_hora_Inl [OF pd])
  have lhs: "marca_transacao (\<lambda>_. None) bd clin pac med data hora =
     (if c1 then
        if c2 then
          if c3 then
            if c4 then Inl DataError
            else Inr ((Erro (MedicoNaoTrabalha (lista_dias_da_semana ! weekday d)), 400), bd)
          else Inr ((Erro (MedicoNaoExistente med), 400), bd)
        else Inr ((Erro (PacienteNaoExistente pac), 400), bd)
      else Inr ((Erro (ClinicaNaoExistente clin), 404), bd))"
    unfolding marca_transacao_def executar_nenhuma executar_com_nenhuma p cdh entao_Inr entao_Inl
      count_where_pos Let_def c1_def c2_def c3_def c4_def d_def [symmetric] ..
  have rhs: "take 4 (verificacoes_marca bd clin pac med data hora d h) =
        [(c1, (Erro (ClinicaNaoExistente clin), 404)),
         (c2, (Erro (PacienteNaoExistente pac), 400)),
         (c3, (Erro (MedicoNaoExistente med), 400)),
         (c4, (Erro (MedicoNaoTrabalha (lista_dias_da_semana ! weekday d)), 400))]"
    by (simp add: verificacoes_marca_def c1_def c2_def c3_def c4_def)
  show ?thesis
    unfolding lhs d_def [symmetric] rhs by simp
qed

lemma cancela_transacao_spec:
  assumes pd: "pg_date_in data = Inr d" and ph: "pg_time_in hora = Inr h"
  shows "cancela_transacao (\<lambda>_. None) bd clin pac med data hora =
         Inr (cancela_spec bd clin pac med data hora d h)"
proof -
  define c1 where "c1 \<longleftrightarrow> (\<exists>c \<in> set (tb_clinica bd). cl_nome c = clin)"
  define c2 where "c2 \<longleftrightarrow> (\<exists>p \<in> set (tb_paciente bd). p_ssn p = pac)"
  define c3 where "c3 \<longleftrightarrow> (\<exists>m \<in> set (tb_medico bd). m_nif m = med)"
  define alvo where "alvo = (\<lambda>c::consulta_row. c_ssn c = pac \<and> c_nif c = med \<and> c_nome c = clin
                                \<and> c_data c = d \<and> c_hora c = h)"
  have alvo: "corresponde pac med clin d h = alvo"
    by (simp add: alvo_def corresponde_def fun_eq_iff)
  have cdh: "com_data_hora data hora f = Inr (f d h)" for f :: "date \<Rightarrow> time \<Rightarrow> 'b"
    by (rule com_data_hora_Inr [OF pd ph])
  have lhs: "cancela_transacao (\<lambda>_. None) bd clin pac med data hora =
     (if c1 then
        if c2 then
          if c3 then
            (case (bd\<lparr>tb_consulta := filter (\<lambda>c. \<not> alvo c) (tb_consulta bd)\<rparr>,
                   count_where alvo (tb_consulta bd)) of
               (bd', rowcount) \<Rightarrow>
                 if 0 < rowcount
                 then Inr ((SoMensagem (CancelouConsulta pac med clin hora data), 200), bd')
                 else Inr ((Erro ConsultaNaoEncontrada, 400), bd'))
          else Inr ((Erro (MedicoNaoExistente med), 400), bd)
        else Inr ((Erro (PacienteNaoExistente pac), 400), bd)
      else Inr ((Erro (ClinicaNaoExistente clin), 404), bd))"
    unfolding cancela_transacao_def executar_nenhuma executar_com_nenhuma cdh entao_Inr
      count_where_pos Let_def c1_def c2_def c3_def alvo_def ..
  have rhs: "cancela_spec bd clin pac med data hora d h =
     (case primeira_falha
        [(c1, (Erro (ClinicaNaoExistente clin), 404)),
         (c2, (Erro (PacienteNaoExistente pac), 400)),
         (c3, (Erro (MedicoNaoExistente med), 400))] of
        Some r \<Rightarrow> (r, bd)
      | None \<Rightarrow>
          if \<exists>c \<in> set (tb_consulta bd). alvo c
          then ((SoMensagem (CancelouConsulta pac med clin hora data), 200),
                bd\<lparr>tb_consulta := filter (\<lambda>c. \<not> alvo c) (tb_consulta bd)\<rparr>)
          else ((Erro ConsultaNaoEncontrada, 400), bd))"
    unfolding cancela_spec_def verificacoes_cancela_def alvo c1_def c2_def c3_def ..
  have nada: "bd\<lparr>tb_consulta := filter (\<lambda>c. \<not> alvo c) (tb_consulta bd)\<rparr> = bd"
    if "\<not> (\<exists>c \<in> set (tb_consulta bd). alvo c)"
  proof -
    from that have "filter (\<lambda>c. \<not> alvo c) (tb_consulta bd) = tb_consulta bd"
      by (simp add: filter_id_conv)
    then show ?thesis by simp
  qed
  show ?thesis
    unfolding lhs rhs using nada by (simp add: count_where_pos)
qed

lemma cancela_transacao_branco:
  assumes pd: "pg_date_in data = Inl DataError"
  shows "cancela_transacao (\<lambda>_. None) bd clin pac med data hora =
         (case primeira_falha (verificacoes_cancela bd clin pac med) of
            Some r \<Rightarrow> Inr (r, bd)
          | None \<Rightarrow> Inl DataError)"
proof -
  define c1 where "c1 \<longleftrightarrow> (\<exists>c \<in> set (tb_clinica bd). cl_nome c = clin)"
  define c2 where "c2 \<longleftrightarrow> (\<exists>p \<in> set (tb_paciente bd). p_ssn p = pac)"
  define c3 where "c3 \<longleftrightarrow> (\<exists>m \<in> set (tb_medico bd). m_nif m = med)"
  have cdh: "com_data_hora data hora f = Inl DataError" for f :: "date \<Rightarrow> time \<Rightarrow> 'b"
    by (rule com_data_hora_Inl [OF pd])
  have lhs: "cancela_transacao (\<lambda>_. None) bd clin pac med data hora =
     (if c1 then
        if c2 then
          if c3 then Inl DataError
          else Inr ((Erro (MedicoNaoExistente med), 400), bd)
        else Inr ((Erro (PacienteNaoExistente pac), 400), bd)
      else Inr ((Erro (ClinicaNaoExistente clin), 404), bd))"
    unfolding cancela_transacao_def executar_nenhuma executar_com_nenhuma cdh entao_Inr entao_Inl
      count_where_pos Let_def c1_def c2_def c3_def ..
  have rhs: "verificacoes_cancela bd clin pac med =
        [(c1, (Erro (ClinicaNaoExistente clin), 404)),
         (c2, (Erro (PacienteNaoExistente pac), 400)),
         (c3, (Erro (MedicoNaoExistente med), 400))]"
    by (simp add: verificacoes_cancela_def c1_def c2_def c3_def)
  show ?thesis
    unfolding lhs rhs by simp
qed

lemma primeiro_erro_None: "primeiro_erro rs = None \<longleftrightarrow> (\<forall>r \<in> set rs. r = None)"
  by (induction rs rule: primeiro_erro.induct) simp_all

lemma validar_marca_valido:
  assumes "validar_marca now paciente medico data hora = Inr None"
  shows "\<exists>dd hh. strptime (texto data) FormatoData = Inr dd
           \<and> strptime (texto hora) FormatoHora = Inr hh"
proof -
  from assms have r: "primeiro_erro (regras now paciente medico data hora) = None"
    by (simp add: validar_marca_regras)
  then have "\<forall>x \<in> set (regras now paciente medico data hora). x = None"
    by (simp only: primeiro_erro_None)
  then have d: "regra_data data = None" and h: "regra_hora hora = None"
    by (simp_all add: regras_def)
  from d obtain dd where "strptime (texto data) FormatoData = Inr dd"
    by (auto simp: regra_data_def texto_def split: option.splits if_splits sum.splits)
  moreover from h obtain hh where "strptime (texto hora) FormatoHora = Inr hh"
    by (auto simp: regra_hora_def texto_def split: option.splits if_splits sum.splits)
  ultimately show ?thesis by blast
qed

lemma secao_nenhuma: "secao_transacao (\<lambda>_. None) corpo_tx = corpo_tx"
  by (cases corpo_tx) (simp_all add: secao_transacao_def executar_nenhuma entao_def)

lemma em_transacao_nenhuma: "em_transacao (\<lambda>_. None) bd (Inr r) = r"
  by (cases r) (simp add: em_transacao_def secao_nenhuma)

lemma em_transacao_nenhuma_Inl:
  "em_transacao (\<lambda>_. None) bd (Inl e) = ((Erro (Excecao e), 500), bd)"
  by (simp add: em_transacao_def secao_nenhuma)

lemma distinct_verificacoes_marca:
  "distinct (map snd (verificacoes_marca bd clin pac med data hora d h))"
  by (simp add: verificacoes_marca_def)

lemma distinct_verificacoes_cancela:
  "distinct (map snd (verificacoes_cancela bd clin pac med))"
  by (simp add: verificacoes_cancela_def)

lemma corpo_marca_sem_falhas:
  assumes d: "strptime (texto data) FormatoData = Inr dd"
    and h: "strptime (texto hora) FormatoHora = Inr hh"
  shows "corpo_marca (\<lambda>_. None) bd clin paciente medico data hora =
     (if CHR '' '' \<in> set (texto data) then
        (case primeira_falha
                (take 4 (verificacoes_marca bd clin (texto paciente) (texto medico)
                           (texto data) (texto hora) (date_of dd) (time_of hh))) of
           Some r \<Rightarrow> Inr (r, bd)
         | None \<Rightarrow> Inl DataError)
      else Inr (marca_spec bd clin (texto paciente) (texto medico) (texto data) (texto hora)
                  (date_of dd) (time_of hh)))"
proof (cases "CHR '' '' \<in> set (texto data)")
  case True
  with pg_date_in_strptime [OF d] have "pg_date_in (texto data) = Inl DataError" by simp
  from marca_transacao_branco [OF d this] True show ?thesis
    by (simp add: corpo_marca_def)
next
  case False
  with pg_date_in_strptime [OF d] have "pg_date_in (texto data) = Inr (date_of dd)" by simp
  from marca_transacao_spec [OF d this pg_time_in_strptime [OF h]] False show ?thesis
    by (simp add: corpo_marca_def)
qed

lemma corpo_cancela_sem_falhas:
  assumes d: "strptime (texto data) FormatoData = Inr dd"
    and h: "strptime (texto hora) FormatoHora = Inr hh"
  shows "corpo_cancela (\<lambda>_. None) bd clin paciente medico data hora =
     (if CHR '' '' \<in> set (texto data) then
        (case primeira_falha (verificacoes_cancela bd clin (texto paciente) (texto medico)) of
           Some r \<Rightarrow> Inr (r, bd)
         | None \<Rightarrow> Inl DataError)
      else Inr (cancela_spec bd clin (texto paciente) (texto medico) (texto data) (texto hora)
                  (date_of dd) (time_of hh)))"
proof (cases "CHR '' '' \<in> set (texto data)")
  case True
  with pg_date_in_strptime [OF d] have "pg_date_in (texto data) = Inl DataError" by simp
  from cancela_transacao_branco [OF this] True show ?thesis
    by (simp add: corpo_cancela_def)
next
  case False
  with pg_date_in_strptime [OF d] have "pg_date_in (texto data) = Inr (date_of dd)" by simp
  from cancela_transacao_spec [OF this pg_time_in_strptime [OF h]] False show ?thesis
    by (simp add: corpo_cancela_def)
qed

lemma em_transacao_caso:
  "em_transacao (\<lambda>_. None) bd (case x of Some r \<Rightarrow> Inr (r, bd) | None \<Rightarrow> Inl e) =
   (case x of Some r \<Rightarrow> (r, bd) | None \<Rightarrow> ((Erro (Excecao e), 500), bd))"
  by (cases x) (simp_all add: em_transacao_nenhuma em_transacao_nenhuma_Inl)

text \<open>
  Claim C1: a booking whose parameters pass validation, with no failure of the store.  When
  the date text has no blank, the booking does what the ordered list of the seven checks
  says: the first check that fails gives its own response (404 for the clinic, 400 for the
  others, all seven different) and the database is returned as it was; when none fails the
  appointment row is appended and the 200 response echoes the parameters.  A date text that
  passes validation can have a blank before a one-digit day, which \<^verbatim>\<open>strptime\<close> accepts
  and PostgreSQL refuses: then the first four checks answer as in the list, and when they
  pass the query for the doctor's appointments raises, so the response is the 500 error and
  the database is returned as it was, where the claim has the three remaining checks and
  the insert.
\<close>

theorem marca_consulta_validada:
  assumes "validar_marca now paciente medico data hora = Inr None"
  shows "\<exists>dd hh. strptime (texto data) FormatoData = Inr dd
           \<and> strptime (texto hora) FormatoHora = Inr hh
           \<and> marca_consulta (\<lambda>_. None) now bd clin paciente medico data hora =
               Inr (if CHR '' '' \<in> set (texto data) then
                      (case primeira_falha
                              (take 4 (verificacoes_marca bd clin (texto paciente)
                                         (texto medico) (texto data) (texto hora)
                                         (date_of dd) (time_of hh))) of
                         Some r \<Rightarrow> (r, bd)
                       | None \<Rightarrow> ((Erro (Excecao DataError), 500), bd))
                    else marca_spec bd clin (texto paciente) (texto medico) (texto data)
                           (texto hora) (date_of dd) (time_of hh))
           \<and> distinct (map snd (verificacoes_marca bd clin (texto paciente) (texto medico)
                                   (texto data) (texto hora) (date_of dd) (time_of hh)))"
proof -
  from validar_marca_valido [OF assms] obtain dd hh
    where p: "strptime (texto data) FormatoData = Inr dd"
      "strptime (texto hora) FormatoHora = Inr hh"
    by blast
  have "marca_consulta (\<lambda>_. None) now bd clin paciente medico data hora =
               Inr (if CHR '' '' \<in> set (texto data) then
                      (case primeira_falha
                              (take 4 (verificacoes_marca bd clin (texto paciente)
                                         (texto medico) (texto data) (texto hora)
                                         (date_of dd) (time_of hh))) of
                         Some r \<Rightarrow> (r, bd)
                       | None \<Rightarrow> ((Erro (Excecao DataError), 500), bd))
                    else marca_spec bd clin (texto paciente) (texto medico) (texto data)
                           (texto hora) (date_of dd) (time_of hh))"
    by (simp add: marca_consulta_def assms entao_Inr corpo_marca_sem_falhas [OF p]
          em_transacao_nenhuma em_transacao_caso)
  with p distinct_verificacoes_marca show ?thesis by blast
qed

text \<open>
  Claim C7: a cancellation whose parameters pass validation, with no failure of the store.
  When the date text has no blank, the cancellation checks the clinic (404), the patient
  (400) and the doctor (400) in this order, then deletes exactly the rows that match
  patient, doctor, clinic, date and time; when no row matches, the response is the 400 error
  for no matching appointment and the database is unchanged; otherwise the response is 200.
  With a blank before a one-digit day in the date text, the three checks answer as before,
  and when they pass the \<^verbatim>\<open>DELETE\<close> raises: the response is the 500 error and no row is
  deleted, where the claim has the delete and the 200 or the 400 response.
\<close>

theorem cancela_consulta_validada:
  assumes "validar_cancela now paciente medico data hora = Inr None"
  shows "\<exists>dd hh. strptime (texto data) FormatoData = Inr dd
           \<and> strptime (texto hora) FormatoHora = Inr hh
           \<and> cancela_consulta (\<lambda>_. None) now bd clin paciente medico data hora =
               Inr (if CHR '' '' \<in> set (texto data) then
                      (case primeira_falha
                              (verificacoes_cancela bd clin (texto paciente) (texto medico)) of
                         Some r \<Rightarrow> (r, bd)
                       | None \<Rightarrow> ((Erro (Excecao DataError), 500), bd))
                    else cancela_spec bd clin (texto paciente) (texto medico) (texto data)
                           (texto hora) (date_of dd) (time_of hh))"
proof -
  from assms have v: "validar_marca now paciente medico data hora = Inr None"
    by (simp add: validar_cancela_marca)
  from validar_marca_valido [OF v] obtain dd hh
    where p: "strptime (texto data) FormatoData = Inr dd"
      "strptime (texto hora) FormatoHora = Inr hh"
    by blast
  have "cancela_consulta (\<lambda>_. None) now bd clin paciente medico data hora =
               Inr (if CHR '' '' \<in> set (texto data) then
                      (case primeira_falha
                              (verificacoes_cancela bd clin (texto paciente) (texto medico)) of
                         Some r \<Rightarrow> (r, bd)
                       | None \<Rightarrow> ((Erro (Excecao DataError), 500), bd))
                    else cancela_spec bd clin (texto paciente) (texto medico) (texto data)
                           (texto hora) (date_of dd) (time_of hh))"
    by (simp add: cancela_consulta_def assms entao_Inr corpo_cancela_sem_falhas [OF p]
          em_transacao_nenhuma em_transacao_caso)
  with p show ?thesis by blast
qed

lemma strptime_0830: "strptime ''08:30:00'' FormatoHora = Inr (combine 693596 (hms 8 30 0))"
  by (simp add: parse_defs cal_defs)

lemma strptime_branco: "strptime ''2024-01- 8'' FormatoData = Inr (combine 738893 0)"
  by (simp add: parse_defs cal_defs)

lemma regra_paciente_2: "regra_paciente (Some ''22222222222'') = None"
  by (simp add: regra_paciente_def digito_py_def digito_def classe_def)

lemma regras_exemplo_0830:
  "regra_hora (Some ''08:30:00'') = None"
  "regra_passado now_exemplo (Some ''2024-01-08'') (Some ''08:30:00'') = None"
  "regra_janela (Some ''2024-01-08'') (Some ''08:30:00'') = None"
  by (simp_all add: regra_hora_def strptime_0830 regra_janela_def regra_passado_def instante_def
        texto_def strptime_20240108 now_exemplo_def na_janela_def tempo_defs)

lemma regras_exemplo_branco:
  "regra_data (Some ''2024-01- 8'') = None"
  "regra_passado now_exemplo (Some ''2024-01- 8'') (Some ''09:00:00'') = None"
  "regra_janela (Some ''2024-01- 8'') (Some ''09:00:00'') = None"
  "regra_passado now_exemplo (Some ''2024-01- 8'') (Some ''08:30:00'') = None"
  "regra_janela (Some ''2024-01- 8'') (Some ''08:30:00'') = None"
  by (simp_all add: regra_data_def strptime_0830 strptime_0900 regra_janela_def
        regra_passado_def instante_def texto_def strptime_branco now_exemplo_def na_janela_def
        tempo_defs)

lemma validar_exemplo:
  "validar_marca now_exemplo (Some ''12345678901'') (Some ''123456789'') (Some ''2024-01-08'')
     (Some ''09:00:00'') = Inr None"
  "validar_marca now_exemplo (Some ''22222222222'') (Some ''123456789'') (Some ''2024-01-08'')
     (Some ''09:00:00'') = Inr None"
  "validar_marca now_exemplo (Some ''22222222222'') (Some ''123456789'') (Some ''2024-01-08'')
     (Some ''08:30:00'') = Inr None"
  by (simp_all add: validar_marca_regras regras_def regra_paciente_11 regra_paciente_2
        regra_medico_9 regra_data_20240108 regra_passado_exemplo regras_exemplo_0900
        regras_exemplo_0830)

lemma validar_exemplo_branco:
  "validar_marca now_exemplo (Some ''12345678901'') (Some ''123456789'') (Some ''2024-01- 8'')
     (Some ''09:00:00'') = Inr None"
  "validar_marca now_exemplo (Some ''22222222222'') (Some ''123456789'') (Some ''2024-01- 8'')
     (Some ''08:30:00'') = Inr None"
  by (simp_all add: validar_marca_regras regras_def regra_paciente_11 regra_paciente_2
        regra_medico_9 regras_exemplo_0900(1) regras_exemplo_0830(1) regras_exemplo_branco)

lemma partes_exemplo:
  "date_of (combine 738893 0) = 738893"
  "time_of (combine 693596 (hms 9 0 0)) = hms 9 0 0"
  "time_of (combine 693596 (hms 8 30 0)) = hms 8 30 0"
  "weekday 738893 = 0"
  by (simp_all add: tempo_defs)

lemma hms_distintos: "hms 8 30 0 \<noteq> hms 9 0 0"
  by (simp add: hms_def)

theorem marca_consulta_validada_witness:
  "marca_consulta (\<lambda>_. None) now_exemplo bd_exemplo ''A'' (Some ''12345678901'')
     (Some ''123456789'') (Some ''2024-01- 8'') (Some ''09:00:00'')
   = Inr ((Erro (Excecao DataError), 500), bd_exemplo)
   \<and> marca_consulta (\<lambda>_. None) now_exemplo bd_exemplo ''A'' (Some ''12345678901'')
     (Some ''123456789'') (Some ''2024-01-08'') (Some ''09:00:00'')
   = Inr ((Sucesso (MarcouConsulta ''12345678901'' ''123456789'' ''A'' ''09:00:00'' ''2024-01-08''),
           200),
          bd_exemplo\<lparr>tb_consulta := tb_consulta bd_exemplo @
             [\<lparr>c_ssn = ''12345678901'', c_nif = ''123456789'', c_nome = ''A'',
               c_data = 738893, c_hora = hms 9 0 0\<rparr>]\<rparr>)
   \<and> marca_consulta (\<lambda>_. None) now_exemplo bd_exemplo ''B'' (Some ''12345678901'')
       (Some ''123456789'') (Some ''2024-01-08'') (Some ''09:00:00'')
     = Inr ((Erro (ClinicaNaoExistente ''B''), 404), bd_exemplo)
   \<and> marca_consulta (\<lambda>_. None) now_exemplo bd_exemplo ''A'' (Some ''22222222222'')
       (Some ''123456789'') (Some ''2024-01-08'') (Some ''09:00:00'')
     = Inr ((Erro MedicoProprio, 400), bd_exemplo)"
proof -
  have branco: "CHR '' '' \<in> set ''2024-01- 8''" "CHR '' '' \<notin> set ''2024-01-08''"
    by simp_all
  have zero: "marca_consulta (\<lambda>_. None) now_exemplo bd_exemplo ''A'' (Some ''12345678901'')
       (Some ''123456789'') (Some ''2024-01- 8'') (Some ''09:00:00'')
     = Inr (case primeira_falha
                   (take 4 (verificacoes_marca bd_exemplo ''A'' ''12345678901'' ''123456789''
                              ''2024-01- 8'' ''09:00:00'' 738893 (hms 9 0 0))) of
              Some r \<Rightarrow> (r, bd_exemplo)
            | None \<Rightarrow> ((Erro (Excecao DataError), 500), bd_exemplo))"
    using marca_consulta_validada [OF validar_exemplo_branco(1), of bd_exemplo "''A''"]
    by (auto simp: texto_def strptime_branco strptime_0900 partes_exemplo branco)
  have one: "marca_consulta (\<lambda>_. None) now_exemplo bd_exemplo clin (Some pac)
       (Some ''123456789'') (Some ''2024-01-08'') (Some ''09:00:00'')
     = Inr (marca_spec bd_exemplo clin pac ''123456789'' ''2024-01-08'' ''09:00:00''
              738893 (hms 9 0 0))"
    if "validar_marca now_exemplo (Some pac) (Some ''123456789'') (Some ''2024-01-08'')
     (Some ''09:00:00'') = Inr None" for clin pac
    using marca_consulta_validada [OF that, of bd_exemplo clin]
    by (auto simp: texto_def strptime_20240108 strptime_0900 partes_exemplo branco)
  have "primeira_falha
          (take 4 (verificacoes_marca bd_exemplo ''A'' ''12345678901'' ''123456789''
                     ''2024-01- 8'' ''09:00:00'' 738893 (hms 9 0 0))) = None"
    by (simp add: verificacoes_marca_def bd_exemplo_def partes_exemplo)
  with zero have "marca_consulta (\<lambda>_. None) now_exemplo bd_exemplo ''A'' (Some ''12345678901'')
       (Some ''123456789'') (Some ''2024-01- 8'') (Some ''09:00:00'')
     = Inr ((Erro (Excecao DataError), 500), bd_exemplo)"
    by simp
  moreover have "marca_spec bd_exemplo ''A'' ''12345678901'' ''123456789'' ''2024-01-08'' ''09:00:00''
          738893 (hms 9 0 0)
        = ((Sucesso (MarcouConsulta ''12345678901'' ''123456789'' ''A'' ''09:00:00''
              ''2024-01-08''), 200),
          bd_exemplo\<lparr>tb_consulta := tb_consulta bd_exemplo @
             [\<lparr>c_ssn = ''12345678901'', c_nif = ''123456789'', c_nome = ''A'',
               c_data = 738893, c_hora = hms 9 0 0\<rparr>]\<rparr>)"
    by (simp add: marca_spec_def verificacoes_marca_def bd_exemplo_def linha_paciente_def
          partes_exemplo hms_distintos)
  moreover have "marca_spec bd_exemplo ''B'' ''12345678901'' ''123456789'' ''2024-01-08''
          ''09:00:00'' 738893 (hms 9 0 0)
        = ((Erro (ClinicaNaoExistente ''B''), 404), bd_exemplo)"
    by (simp add: marca_spec_def verificacoes_marca_def bd_exemplo_def)
  moreover have "marca_spec bd_exemplo ''A'' ''22222222222'' ''123456789'' ''2024-01-08''
          ''09:00:00'' 738893 (hms 9 0 0)
        = ((Erro MedicoProprio, 400), bd_exemplo)"
    by (simp add: marca_spec_def verificacoes_marca_def bd_exemplo_def linha_paciente_def
          partes_exemplo hms_distintos)
  ultimately show ?thesis
    using one [OF validar_exemplo(1), of "''A''"] one [OF validar_exemplo(1), of "''B''"]
      one [OF validar_exemplo(2), of "''A''"]
    by simp
qed

theorem cancela_consulta_validada_witness:
  "cancela_consulta (\<lambda>_. None) now_exemplo bd_exemplo ''A'' (Some ''22222222222'')
     (Some ''123456789'') (Some ''2024-01- 8'') (Some ''08:30:00'')
   = Inr ((Erro (Excecao DataError), 500), bd_exemplo)
   \<and> cancela_consulta (\<lambda>_. None) now_exemplo bd_exemplo ''A'' (Some ''22222222222'')
     (Some ''123456789'') (Some ''2024-01-08'') (Some ''08:30:00'')
   = Inr ((SoMensagem (CancelouConsulta ''22222222222'' ''123456789'' ''A'' ''08:30:00''
             ''2024-01-08''), 200),
          bd_exemplo\<lparr>tb_consulta := []\<rparr>)
   \<and> cancela_consulta (\<lambda>_. None) now_exemplo bd_exemplo ''A'' (Some ''22222222222'')
       (Some ''123456789'') (Some ''2024-01-08'') (Some ''09:00:00'')
     = Inr ((Erro ConsultaNaoEncontrada, 400), bd_exemplo)
   \<and> cancela_consulta (\<lambda>_. None) now_exemplo bd_exemplo ''B'' (Some ''22222222222'')
       (Some ''123456789'') (Some ''2024-01-08'') (Some ''09:00:00'')
     = Inr ((Erro (ClinicaNaoExistente ''B''), 404), bd_exemplo)"
proof -
  have branco: "CHR '' '' \<in> set ''2024-01- 8''" "CHR '' '' \<notin> set ''2024-01-08''"
    by simp_all
  have v: "validar_cancela now_exemplo (Some ''22222222222'') (Some ''123456789'')
     (Some ''2024-01-08'') (Some ''08:30:00'') = Inr None"
    "validar_cancela now_exemplo (Some ''22222222222'') (Some ''123456789'')
     (Some ''2024-01-08'') (Some ''09:00:00'') = Inr None"
    "validar_cancela now_exemplo (Some ''22222222222'') (Some ''123456789'')
     (Some ''2024-01- 8'') (Some ''08:30:00'') = Inr None"
    by (simp_all add: validar_cancela_marca validar_exemplo validar_exemplo_branco)
  have zero: "cancela_consulta (\<lambda>_. None) now_exemplo bd_exemplo ''A'' (Some ''22222222222'')
     (Some ''123456789'') (Some ''2024-01- 8'') (Some ''08:30:00'')
     = Inr (case primeira_falha
                   (verificacoes_cancela bd_exemplo ''A'' ''22222222222'' ''123456789'') of
              Some r \<Rightarrow> (r, bd_exemplo)
            | None \<Rightarrow> ((Erro (Excecao DataError), 500), bd_exemplo))"
    using cancela_consulta_validada [OF v(3), of bd_exemplo "''A''"]
    by (auto simp: texto_def strptime_branco strptime_0830 partes_exemplo branco)
  have a: "cancela_consulta (\<lambda>_. None) now_exemplo bd_exemplo ''A'' (Some ''22222222222'')
     (Some ''123456789'') (Some ''2024-01-08'') (Some ''08:30:00'')
     = Inr (cancela_spec bd_exemplo ''A'' ''22222222222'' ''123456789'' ''2024-01-08''
              ''08:30:00'' 738893 (hms 8 30 0))"
    using cancela_consulta_validada [OF v(1), of bd_exemplo "''A''"]
    by (auto simp: texto_def strptime_20240108 strptime_0830 partes_exemplo branco)
  have b: "cancela_consulta (\<lambda>_. None) now_exemplo bd_exemplo clin (Some ''22222222222'')
     (Some ''123456789'') (Some ''2024-01-08'') (Some ''09:00:00'')
     = Inr (cancela_spec bd_exemplo clin ''22222222222'' ''123456789'' ''2024-01-08''
              ''09:00:00'' 738893 (hms 9 0 0))" for clin
    using cancela_consulta_validada [OF v(2), of bd_exemplo clin]
    by (auto simp: texto_def strptime_20240108 strptime_0900 partes_exemplo branco)
  have "primeira_falha (verificacoes_cancela bd_exemplo ''A'' ''22222222222'' ''123456789'')
        = None"
    by (simp add: verificacoes_cancela_def bd_exemplo_def)
  with zero have "cancela_consulta (\<lambda>_. None) now_exemplo bd_exemplo ''A''
     (Some ''22222222222'') (Some ''123456789'') (Some ''2024-01- 8'') (Some ''08:30:00'')
     = Inr ((Erro (Excecao DataError), 500), bd_exemplo)"
    by simp
  moreover have "cancela_spec bd_exemplo ''A'' ''22222222222'' ''123456789'' ''2024-01-08''
              ''08:30:00'' 738893 (hms 8 30 0)
        = ((SoMensagem (CancelouConsulta ''22222222222'' ''123456789'' ''A'' ''08:30:00''
             ''2024-01-08''), 200), bd_exemplo\<lparr>tb_consulta := []\<rparr>)"
    by (simp add: cancela_spec_def verificacoes_cancela_def corresponde_def bd_exemplo_def)
  moreover have "cancela_spec bd_exemplo ''A'' ''22222222222'' ''123456789'' ''2024-01-08''
              ''09:00:00'' 738893 (hms 9 0 0)
        = ((Erro ConsultaNaoEncontrada, 400), bd_exemplo)"
    by (simp add: cancela_spec_def verificacoes_cancela_def corresponde_def bd_exemplo_def
          hms_distintos)
  moreover have "cancela_spec bd_exemplo ''B'' ''22222222222'' ''123456789'' ''2024-01-08''
              ''09:00:00'' 738893 (hms 9 0 0)
        = ((Erro (ClinicaNaoExistente ''B''), 404), bd_exemplo)"
    by (simp add: cancela_spec_def verificacoes_cancela_def bd_exemplo_def)
  ultimately show ?thesis
    using a b [of "''A''"] b [of "''B''"] by simp
qed

section \<open>The claim about failures of the store\<close>

lemma executar_Some: "fl st = Some msg \<Longrightarrow> executar fl st v = Inl (StoreError msg)"
  by (simp add: executar_def)

lemma executar_None: "fl st = None \<Longrightarrow> executar fl st v = Inr v"
  by (simp add: executar_def)

lemma so_falha_refl: "so_falha fl r r"
  by (simp add: so_falha_def)

lemma so_falha_entao:
  assumes "\<And>v. so_falha fl (f v) (g v)"
  shows "so_falha fl (entao (executar fl st x) f) (entao (executar (\<lambda>_. None) st x) g)"
proof (cases "fl st")
  case None
  then show ?thesis using assms by (simp add: executar_def entao_def)
next
  case (Some msg)
  then show ?thesis by (auto simp: executar_def entao_def so_falha_def)
qed

lemma so_falha_if:
  "so_falha fl a b \<Longrightarrow> so_falha fl c d \<Longrightarrow> so_falha fl (if p then a else c) (if p then b else d)"
  by simp

lemma so_falha_list:
  assumes "so_falha fl n m" "\<And>y ys. so_falha fl (f y ys) (g y ys)"
  shows "so_falha fl (case xs of [] \<Rightarrow> n | y # ys \<Rightarrow> f y ys) (case xs of [] \<Rightarrow> m | y # ys \<Rightarrow> g y ys)"
  using assms by (cases xs) simp_all

lemma so_falha_prod:
  assumes "\<And>a b. so_falha fl (f a b) (g a b)"
  shows "so_falha fl (case p of (a, b) \<Rightarrow> f a b) (case p of (a, b) \<Rightarrow> g a b)"
  using assms by (cases p) simp

lemma so_falha_entao_puro:
  assumes "\<And>v. so_falha fl (f v) (g v)"
  shows "so_falha fl (entao r f) (entao r g)"
  using assms by (cases r) (simp_all add: entao_def so_falha_refl)

lemma so_falha_entao_com:
  assumes "\<And>v. so_falha fl (f v) (g v)"
  shows "so_falha fl (entao (executar_com fl st r) f) (entao (executar_com (\<lambda>_. None) st r) g)"
proof (cases "fl st")
  case None
  then have "executar_com fl st r = r"
    by (simp add: executar_com_def executar_def entao_def)
  then show ?thesis
    unfolding executar_com_nenhuma using assms by (simp add: so_falha_entao_puro)
next
  case (Some msg)
  then show ?thesis by (auto simp: executar_com_def executar_def entao_def so_falha_def)
qed

lemma marca_transacao_falha:
  "so_falha fl (marca_transacao fl bd clin pac med data hora)
     (marca_transacao (\<lambda>_. None) bd clin pac med data hora)"
  unfolding marca_transacao_def Let_def
  by (intro so_falha_entao so_falha_entao_com so_falha_entao_puro so_falha_if so_falha_list
        so_falha_refl)

lemma cancela_transacao_falha:
  "so_falha fl (cancela_transacao fl bd clin pac med data hora)
     (cancela_transacao (\<lambda>_. None) bd clin pac med data hora)"
  unfolding cancela_transacao_def Let_def
  by (intro so_falha_entao so_falha_entao_com so_falha_if so_falha_prod so_falha_refl)

lemma corpo_marca_falha:
  "so_falha fl (corpo_marca fl bd clin paciente medico data hora)
     (corpo_marca (\<lambda>_. None) bd clin paciente medico data hora)"
  unfolding corpo_marca_def
  by (rule marca_transacao_falha)

lemma corpo_cancela_falha:
  "so_falha fl (corpo_cancela fl bd clin paciente medico data hora)
     (corpo_cancela (\<lambda>_. None) bd clin paciente medico data hora)"
  unfolding corpo_cancela_def
  by (rule cancela_transacao_falha)

lemma secao_falha:
  assumes "so_falha fl b b0"
  shows "so_falha fl (secao_transacao fl b) (secao_transacao (\<lambda>_. None) b0)"
proof (cases "fl Begin")
  case (Some msg)
  then show ?thesis
    by (auto simp: secao_transacao_def executar_def entao_def so_falha_def)
next
  case None
  then have s: "secao_transacao fl b = entao b (\<lambda>r. executar fl Commit r)"
    by (simp add: secao_transacao_def executar_def entao_def)
  from assms consider "b = b0" | st msg where "fl st = Some msg" "b = Inl (StoreError msg)"
    by (auto simp: so_falha_def)
  then show ?thesis
  proof cases
    case 1
    show ?thesis
    proof (cases b0)
      case (Inl e)
      with 1 s show ?thesis by (simp add: secao_nenhuma entao_def so_falha_refl)
    next
      case (Inr r)
      show ?thesis
      proof (cases "fl Commit")
        case None
        with 1 s Inr show ?thesis
          by (simp add: secao_nenhuma entao_def executar_def so_falha_refl)
      next
        case (Some msg)
        with 1 s Inr show ?thesis
          by (auto simp: secao_nenhuma entao_def executar_def so_falha_def)
      qed
    qed
  next
    case 2
    with s show ?thesis by (auto simp: entao_def so_falha_def)
  qed
qed

lemma em_transacao_falha:
  assumes "so_falha fl b b0"
  shows "em_transacao fl bd b = em_transacao (\<lambda>_. None) bd b0
         \<or> (\<exists>st msg. fl st = Some msg
               \<and> em_transacao fl bd b = ((Erro (Excecao (StoreError msg)), 500), bd))"
proof -
  from secao_falha [OF assms]
  consider "secao_transacao fl b = secao_transacao (\<lambda>_. None) b0"
    | st msg where "fl st = Some msg" "secao_transacao fl b = Inl (StoreError msg)"
    by (auto simp: so_falha_def)
  then show ?thesis
  proof cases
    case 1
    then show ?thesis by (simp add: em_transacao_def)
  next
    case 2
    then show ?thesis by (auto simp: em_transacao_def)
  qed
qed

lemma em_transacao_Inl:
  "secao_transacao fl b = Inl e \<Longrightarrow> em_transacao fl bd b = ((Erro (Excecao e), 500), bd)"
  by (simp add: em_transacao_def)

lemma so_commit:
  assumes "\<forall>st. st \<noteq> Commit \<longrightarrow> fl st = None"
  shows "executar fl Begin v = Inr v" "executar fl SelClinica v1 = Inr v1"
    "executar fl SelPaciente v2 = Inr v2" "executar fl SelMedico v3 = Inr v3"
    "executar fl SelTrabalha v4 = Inr v4" "executar fl SelPacienteNif v7 = Inr v7"
    "executar_com fl SelConsultaMedico r1 = r1" "executar_com fl SelConsultaPaciente r2 = r2"
    "executar_com fl InsConsulta r3 = r3" "executar_com fl DelConsulta r4 = r4"
  using assms by (simp_all add: executar_def executar_com_def entao_def)

lemma marca_transacao_so_commit:
  assumes "\<forall>st. st \<noteq> Commit \<longrightarrow> fl st = None"
  shows "marca_transacao fl bd clin pac med data hora
         = marca_transacao (\<lambda>_. None) bd clin pac med data hora"
  unfolding marca_transacao_def so_commit [OF assms] executar_nenhuma executar_com_nenhuma ..

lemma cancela_transacao_so_commit:
  assumes "\<forall>st. st \<noteq> Commit \<longrightarrow> fl st = None"
  shows "cancela_transacao fl bd clin pac med data hora
         = cancela_transacao (\<lambda>_. None) bd clin pac med data hora"
  unfolding cancela_transacao_def so_commit [OF assms] executar_nenhuma executar_com_nenhuma ..

lemma secao_so_commit:
  assumes "\<forall>st. st \<noteq> Commit \<longrightarrow> fl st = None" "fl Commit = Some msg"
  shows "secao_transacao fl (Inr r) = Inl (StoreError msg)"
  using assms by (simp add: secao_transacao_def executar_def entao_def)

lemma marca_consulta_valido:
  "validar_marca now paciente medico data hora = Inr None \<Longrightarrow>
   marca_consulta fl now bd clin paciente medico data hora =
     Inr (em_transacao fl bd (corpo_marca fl bd clin paciente medico data hora))"
  by (simp add: marca_consulta_def entao_Inr)

lemma cancela_consulta_valido:
  "validar_cancela now paciente medico data hora = Inr None \<Longrightarrow>
   cancela_consulta fl now bd clin paciente medico data hora =
     Inr (em_transacao fl bd (corpo_cancela fl bd clin paciente medico data hora))"
  by (simp add: cancela_consulta_def entao_Inr)

lemma secao_so_commit_Inl:
  assumes "\<forall>st. st \<noteq> Commit \<longrightarrow> fl st = None"
  shows "secao_transacao fl (Inl e) = Inl e"
  using assms by (simp add: secao_transacao_def executar_def entao_def)

lemma em_transacao_so_commit:
  assumes "fl Commit = Some msg" "\<forall>st. st \<noteq> Commit \<longrightarrow> fl st = None"
  shows "em_transacao fl bd b =
         ((Erro (Excecao (case b of Inl e \<Rightarrow> e | Inr _ \<Rightarrow> StoreError msg)), 500), bd)"
proof (cases b)
  case (Inl e)
  with secao_so_commit_Inl [OF assms(2)] show ?thesis by (simp add: em_transacao_def)
next
  case (Inr r)
  with secao_so_commit [OF assms(2) assms(1)] show ?thesis by (simp add: em_transacao_def)
qed

lemma corpo_marca_so_commit:
  assumes "\<forall>st. st \<noteq> Commit \<longrightarrow> fl st = None"
  shows "corpo_marca fl bd clin paciente medico data hora
         = corpo_marca (\<lambda>_. None) bd clin paciente medico data hora"
  by (simp add: corpo_marca_def marca_transacao_so_commit [OF assms])

lemma corpo_cancela_so_commit:
  assumes "\<forall>st. st \<noteq> Commit \<longrightarrow> fl st = None"
  shows "corpo_cancela fl bd clin paciente medico data hora
         = corpo_cancela (\<lambda>_. None) bd clin paciente medico data hora"
  by (simp add: corpo_cancela_def cancela_transacao_so_commit [OF assms])

lemma corpo_marca_sem_branco:
  assumes "validar_marca now paciente medico data hora = Inr None"
    and "CHR '' '' \<notin> set (texto data)"
  shows "\<exists>r. corpo_marca (\<lambda>_. None) bd clin paciente medico data hora = Inr r"
proof -
  from validar_marca_valido [OF assms(1)] obtain dd hh
    where "strptime (texto data) FormatoData = Inr dd"
      "strptime (texto hora) FormatoHora = Inr hh"
    by blast
  from corpo_marca_sem_falhas [OF this] assms(2) show ?thesis by simp
qed

lemma corpo_cancela_sem_branco:
  assumes "validar_cancela now paciente medico data hora = Inr None"
    and "CHR '' '' \<notin> set (texto data)"
  shows "\<exists>r. corpo_cancela (\<lambda>_. None) bd clin paciente medico data hora = Inr r"
proof -
  from assms(1) have "validar_marca now paciente medico data hora = Inr None"
    by (simp add: validar_cancela_marca)
  from validar_marca_valido [OF this] obtain dd hh
    where "strptime (texto data) FormatoData = Inr dd"
      "strptime (texto hora) FormatoHora = Inr hh"
    by blast
  from corpo_cancela_sem_falhas [OF this] assms(2) show ?thesis by simp
qed

text \<open>
  Claim C9: for a booking or a cancellation whose parameters pass validation, whenever the
  transactional section raises (a statement of the body, the begin or the commit fails, or
  PostgreSQL refuses a parameter), the response is the 500 error carrying the exception and
  the database is the one before the request.  Every 500 of a run that the run without
  failures does not give comes from a failing statement and carries its message, a run in
  which no executed statement fails answers as the run without failures, and a failing
  commit discards what the body wrote: the response is then the 500 error with the
  exception of the body when the body raised, and with the message of the commit otherwise,
  which is the case whenever the date text has no blank.
\<close>

theorem transacao_abortada:
  "(validar_marca now paciente medico data hora = Inr None \<longrightarrow>
      (\<forall>e. secao_transacao fl (corpo_marca fl bd clin paciente medico data hora) = Inl e \<longrightarrow>
           marca_consulta fl now bd clin paciente medico data hora
             = Inr ((Erro (Excecao e), 500), bd))
      \<and> (marca_consulta fl now bd clin paciente medico data hora
            = marca_consulta (\<lambda>_. None) now bd clin paciente medico data hora
          \<or> (\<exists>st msg. fl st = Some msg
                \<and> marca_consulta fl now bd clin paciente medico data hora
                    = Inr ((Erro (Excecao (StoreError msg)), 500), bd)))
      \<and> (\<forall>msg. fl Commit = Some msg \<and> (\<forall>st. st \<noteq> Commit \<longrightarrow> fl st = None) \<longrightarrow>
             marca_consulta fl now bd clin paciente medico data hora
               = Inr ((Erro (Excecao
                        (case corpo_marca (\<lambda>_. None) bd clin paciente medico data hora of
                           Inl e \<Rightarrow> e | Inr _ \<Rightarrow> StoreError msg)), 500), bd)
             \<and> (CHR '' '' \<notin> set (texto data) \<longrightarrow>
                  marca_consulta fl now bd clin paciente medico data hora
                    = Inr ((Erro (Excecao (StoreError msg)), 500), bd))))
   \<and> (validar_cancela now paciente medico data hora = Inr None \<longrightarrow>
      (\<forall>e. secao_transacao fl (corpo_cancela fl bd clin paciente medico data hora) = Inl e \<longrightarrow>
           cancela_consulta fl now bd clin paciente medico data hora
             = Inr ((Erro (Excecao e), 500), bd))
      \<and> (cancela_consulta fl now bd clin paciente medico data hora
            = cancela_consulta (\<lambda>_. None) now bd clin paciente medico data hora
          \<or> (\<exists>st msg. fl st = Some msg
                \<and> cancela_consulta fl now bd clin paciente medico data hora
                    = Inr ((Erro (Excecao (StoreError msg)), 500), bd)))
      \<and> (\<forall>msg. fl Commit = Some msg \<and> (\<forall>st. st \<noteq> Commit \<longrightarrow> fl st = None) \<longrightarrow>
             cancela_consulta fl now bd clin paciente medico data hora
               = Inr ((Erro (Excecao
                        (case corpo_cancela (\<lambda>_. None) bd clin paciente medico data hora of
                           Inl e \<Rightarrow> e | Inr _ \<Rightarrow> StoreError msg)), 500), bd)
             \<and> (CHR '' '' \<notin> set (texto data) \<longrightarrow>
                  cancela_consulta fl now bd clin paciente medico data hora
                    = Inr ((Erro (Excecao (StoreError msg)), 500), bd))))"
proof (intro conjI impI allI)
  assume v: "validar_marca now paciente medico data hora = Inr None"
  note m = marca_consulta_valido [OF v]
  show "marca_consulta fl now bd clin paciente medico data hora
             = Inr ((Erro (Excecao e), 500), bd)"
    if "secao_transacao fl (corpo_marca fl bd clin paciente medico data hora) = Inl e" for e
    by (simp add: m em_transacao_Inl [OF that])
  show "marca_consulta fl now bd clin paciente medico data hora
            = marca_consulta (\<lambda>_. None) now bd clin paciente medico data hora
          \<or> (\<exists>st msg. fl st = Some msg
                \<and> marca_consulta fl now bd clin paciente medico data hora
                    = Inr ((Erro (Excecao (StoreError msg)), 500), bd))"
    using em_transacao_falha [OF corpo_marca_falha, of fl bd bd clin paciente medico data hora]
    by (simp add: m)
  fix msg
  assume c: "fl Commit = Some msg \<and> (\<forall>st. st \<noteq> Commit \<longrightarrow> fl st = None)"
  then have c1: "fl Commit = Some msg" and c2: "\<forall>st. st \<noteq> Commit \<longrightarrow> fl st = None"
    by simp_all
  show g: "marca_consulta fl now bd clin paciente medico data hora
               = Inr ((Erro (Excecao
                        (case corpo_marca (\<lambda>_. None) bd clin paciente medico data hora of
                           Inl e \<Rightarrow> e | Inr _ \<Rightarrow> StoreError msg)), 500), bd)"
    by (simp add: m corpo_marca_so_commit [OF c2] em_transacao_so_commit [OF c1 c2])
  show "marca_consulta fl now bd clin paciente medico data hora
               = Inr ((Erro (Excecao (StoreError msg)), 500), bd)"
    if "CHR '' '' \<notin> set (texto data)"
  proof -
    from corpo_marca_sem_branco [OF v that, of bd clin]
    obtain r where "corpo_marca (\<lambda>_. None) bd clin paciente medico data hora = Inr r" by blast
    with g show ?thesis by simp
  qed
next
  assume v: "validar_cancela now paciente medico data hora = Inr None"
  note m = cancela_consulta_valido [OF v]
  show "cancela_consulta fl now bd clin paciente medico data hora
             = Inr ((Erro (Excecao e), 500), bd)"
    if "secao_transacao fl (corpo_cancela fl bd clin paciente medico data hora) = Inl e" for e
    by (simp add: m em_transacao_Inl [OF that])
  show "cancela_consulta fl now bd clin paciente medico data hora
            = cancela_consulta (\<lambda>_. None) now bd clin paciente medico data hora
          \<or> (\<exists>st msg. fl st = Some msg
                \<and> cancela_consulta fl now bd clin paciente medico data hora
                    = Inr ((Erro (Excecao (StoreError msg)), 500), bd))"
    using em_transacao_falha [OF corpo_cancela_falha, of fl bd bd clin paciente medico data hora]
    by (simp add: m)
  fix msg
  assume c: "fl Commit = Some msg \<and> (\<forall>st. st \<noteq> Commit \<longrightarrow> fl st = None)"
  then have c1: "fl Commit = Some msg" and c2: "\<forall>st. st \<noteq> Commit \<longrightarrow> fl st = None"
    by simp_all
  show g: "cancela_consulta fl now bd clin paciente medico data hora
               = Inr ((Erro (Excecao
                        (case corpo_cancela (\<lambda>_. None) bd clin paciente medico data hora of
                           Inl e \<Rightarrow> e | Inr _ \<Rightarrow> StoreError msg)), 500), bd)"
    by (simp add: m corpo_cancela_so_commit [OF c2] em_transacao_so_commit [OF c1 c2])
  show "cancela_consulta fl now bd clin paciente medico data hora
               = Inr ((Erro (Excecao (StoreError msg)), 500), bd)"
    if "CHR '' '' \<notin> set (texto data)"
  proof -
    from corpo_cancela_sem_branco [OF v that, of bd clin]
    obtain r where "corpo_cancela (\<lambda>_. None) bd clin paciente medico data hora = Inr r"
      by blast
    with g show ?thesis by simp
  qed
qed

theorem transacao_abortada_witness:
  "marca_consulta (falha_no_commit ''commit failed'') now_exemplo bd_exemplo ''A''
     (Some ''12345678901'') (Some ''123456789'') (Some ''2024-01-08'') (Some ''09:00:00'')
   = Inr ((Erro (Excecao (StoreError ''commit failed'')), 500), bd_exemplo)
   \<and> cancela_consulta (falha_no_commit ''commit failed'') now_exemplo bd_exemplo ''A''
       (Some ''22222222222'') (Some ''123456789'') (Some ''2024-01-08'') (Some ''08:30:00'')
     = Inr ((Erro (Excecao (StoreError ''commit failed'')), 500), bd_exemplo)"
proof -
  have f: "falha_no_commit ''commit failed'' Commit = Some ''commit failed''
           \<and> (\<forall>st. st \<noteq> Commit \<longrightarrow> falha_no_commit ''commit failed'' st = None)"
    by (simp add: falha_no_commit_def)
  have b: "CHR '' '' \<notin> set (texto (Some ''2024-01-08''))"
    by (simp add: texto_def)
  have v: "validar_cancela now_exemplo (Some ''22222222222'') (Some ''123456789'')
     (Some ''2024-01-08'') (Some ''08:30:00'') = Inr None"
    by (simp add: validar_cancela_marca validar_exemplo)
  from f b validar_exemplo(1)
    transacao_abortada [of now_exemplo "Some ''12345678901''" "Some ''123456789''"
      "Some ''2024-01-08''" "Some ''09:00:00''" "falha_no_commit ''commit failed''"
      bd_exemplo "''A''"]
  have "marca_consulta (falha_no_commit ''commit failed'') now_exemplo bd_exemplo ''A''
     (Some ''12345678901'') (Some ''123456789'') (Some ''2024-01-08'') (Some ''09:00:00'')
   = Inr ((Erro (Excecao (StoreError ''commit failed'')), 500), bd_exemplo)"
    by blast
  moreover from f b v
    transacao_abortada [of now_exemplo "Some ''22222222222''" "Some ''123456789''"
      "Some ''2024-01-08''" "Some ''08:30:00''" "falha_no_commit ''commit failed''"
      bd_exemplo "''A''"]
  have "cancela_consulta (falha_no_commit ''commit failed'') now_exemplo bd_exemplo ''A''
       (Some ''22222222222'') (Some ''123456789'') (Some ''2024-01-08'') (Some ''08:30:00'')
     = Inr ((Erro (Excecao (StoreError ''commit failed'')), 500), bd_exemplo)"
    by blast
  ultimately show ?thesis ..
qed

end
